theory Spec2Isabelle
  imports Main "HOL-Library.Word" "HOL-Library.Monad_Syntax"
begin

section \<open>The MIFARE Classic dictionary attack scene\<close>

text \<open>
  A shallow embedding of \<^verbatim>\<open>applications/main/nfc/scenes/nfc_scene_mf_classic_dict_attack.c\<close>.
  The scene's functions are translated one by one and keep their names. The application
  object \<^verbatim>\<open>NfcApp\<close> is passed in and returned; a function that dereferences a handle that
  is not live (a poller or a dictionary that was never opened, failed to open or was freed)
  returns \<open>None\<close>. Every call to a collaborator is appended to the field \<open>calls\<close>, so that
  the order and the number of calls can be stated.

  The assertions at the head of the worker callback (\<^verbatim>\<open>furi_assert\<close>) are taken to hold.
\<close>

subsection \<open>Data\<close>

text \<open>The file's own enum.\<close>

datatype DictAttackState =
    DictAttackStateUserDictInProgress
  | DictAttackStateSystemDictInProgress

text \<open>
  \<^verbatim>\<open>MfClassicKey\<close> is a struct of six bytes (\<^verbatim>\<open>uint8_t data[6]\<close>); a dictionary file is read
  as the list of its candidates, in file order.
\<close>

type_synonym MfClassicKey = "8 word list"

text \<open>
  The four path macros (\<^verbatim>\<open>NFC_APP_MF_CLASSIC_DICT_*_PATH\<close>) are defined in a header that is
  not among the sources; they are taken as four distinct paths.
\<close>

datatype dict_path =
    NFC_APP_MF_CLASSIC_DICT_USER_PATH
  | NFC_APP_MF_CLASSIC_DICT_USER_NESTED_PATH
  | NFC_APP_MF_CLASSIC_DICT_SYSTEM_PATH
  | NFC_APP_MF_CLASSIC_DICT_SYSTEM_NESTED_PATH

type_synonym Storage = "dict_path \<rightharpoonup> MfClassicKey list"

datatype KeysDictMode = KeysDictModeOpenExisting | KeysDictModeOpenAlways

text \<open>
  Modelled from the spec: the dictionary library (\<^verbatim>\<open>keys_dict_*\<close>) is not among the sources.
  Section 3 of the specification describes a handle as carrying a monotonic read cursor
  and a total-key count cached at open; section 4.1 gives the count the type u32.
\<close>

record KeysDict =
  dict_keys :: "MfClassicKey list"
  cursor :: nat
  total_keys :: "32 word"

text \<open>
  The enums of the poller's progress report. Their header is not among the sources; the
  scene names one enumerator of each (the value teardown writes), every other enumerator
  is represented by its number.
\<close>

datatype MfClassicNestedPhase = MfClassicNestedPhaseNone | MfClassicNestedPhaseOther nat
datatype MfClassicPrngType = MfClassicPrngTypeUnknown | MfClassicPrngTypeOther nat
datatype MfClassicBackdoor = MfClassicBackdoorUnknown | MfClassicBackdoorOther nat

text \<open>
  \<^verbatim>\<open>NfcMfClassicDictAttackContext\<close>, the scene's part of the application object. The struct
  is declared in \<^verbatim>\<open>nfc_app_i.h\<close>, which is not among the sources: the sector counters are
  bytes, the two dictionary counters are \<^verbatim>\<open>size_t\<close> (32 bits on the target, the specification's
  u32), the two cryptanalysis counters are 16 bits wide. Only the width of
  \<open>dict_keys_current\<close>, which the scene increments, bears on what is proved below.
\<close>

record NfcMfClassicDictAttackContext =
  dict :: "KeysDict option"
  sectors_total :: "8 word"
  sectors_read :: "8 word"
  current_sector :: "8 word"
  keys_found :: "8 word"
  dict_keys_total :: "32 word"
  dict_keys_current :: "32 word"
  is_key_attack :: bool
  key_attack_current_sector :: "8 word"
  is_card_present :: bool
  nested_phase :: MfClassicNestedPhase
  prng_type :: MfClassicPrngType
  backdoor :: MfClassicBackdoor
  nested_target_key :: "16 word"
  msb_count :: "16 word"

text \<open>\<^verbatim>\<open>MfClassicPollerEventDataUpdate\<close>: the snapshot a \<^verbatim>\<open>DataUpdate\<close> event carries.\<close>

record MfClassicPollerEventDataUpdate =
  upd_sectors_read :: "8 word"
  upd_keys_found :: "8 word"
  upd_current_sector :: "8 word"
  upd_nested_phase :: MfClassicNestedPhase
  upd_prng_type :: MfClassicPrngType
  upd_backdoor :: MfClassicBackdoor
  upd_nested_target_key :: "16 word"
  upd_msb_count :: "16 word"

text \<open>
  The events of the card session, with the fields of \<^verbatim>\<open>mfc_event->data\<close> the callback
  reads. The callback's chain of tests has no final \<^verbatim>\<open>else\<close>: every event type it does not
  name is \<open>MfClassicPollerEventTypeOther\<close>.
\<close>

datatype MfClassicPollerEvent =
    MfClassicPollerEventTypeCardDetected
  | MfClassicPollerEventTypeCardLost
  | MfClassicPollerEventTypeRequestMode
  | MfClassicPollerEventTypeRequestKey
  | MfClassicPollerEventTypeDataUpdate MfClassicPollerEventDataUpdate
  | MfClassicPollerEventTypeNextSector "8 word"
  | MfClassicPollerEventTypeFoundKeyA
  | MfClassicPollerEventTypeFoundKeyB
  | MfClassicPollerEventTypeKeyAttackStart "8 word"
  | MfClassicPollerEventTypeKeyAttackStop
  | MfClassicPollerEventTypeSuccess
  | MfClassicPollerEventTypeOther

datatype MfClassicPollerMode = MfClassicPollerModeDictAttack

text \<open>
  What the callback writes back into \<^verbatim>\<open>mfc_event->data\<close>: nothing, the poller mode with the
  card data, a key with \<^verbatim>\<open>key_provided = true\<close>, or \<^verbatim>\<open>key_provided = false\<close> (the key
  field is then not written).
\<close>

datatype 'd MfClassicPollerEventData =
    NoEventData
  | PollerModeData MfClassicPollerMode 'd
  | KeyProvided MfClassicKey
  | KeyNotProvided

datatype NfcCommand = NfcCommandContinue | NfcCommandStop

text \<open>
  The custom events of the view dispatcher that the scene sends or tests; every other
  value of the enum is \<open>NfcCustomEventOther\<close>.
\<close>

datatype NfcCustomEvent =
    NfcCustomEventCardDetected
  | NfcCustomEventCardLost
  | NfcCustomEventDictAttackDataUpdate
  | NfcCustomEventDictAttackComplete
  | NfcCustomEventDictAttackSkip
  | NfcCustomEventOther

datatype SceneManagerEvent =
    SceneManagerEventTypeCustom NfcCustomEvent
  | SceneManagerEventTypeBack
  | SceneManagerEventTypeTick

datatype DictAttackEvent = DictAttackEventSkipPressed

datatype NfcScene = NfcSceneReadSuccess | NfcSceneExitConfirm

datatype NotificationSequence = sequence_success | sequence_semi_success

text \<open>
  The calls to collaborators, as logged. \<open>'d\<close> is the type of the card data
  (\<^verbatim>\<open>MfClassicData\<close>), which the scene only passes on.
\<close>

datatype 'd call =
    StorageCommonRemove dict_path
  | StorageCommonCopy dict_path dict_path
  | KeysDictAlloc dict_path KeysDictMode
  | KeysDictFree
  | KeysDictRewind
  | NfcPollerAlloc
  | NfcPollerStart
  | NfcPollerStop
  | NfcPollerFree
  | NfcDeviceSetData 'd
  | ViewDispatcherSendCustomEvent NfcCustomEvent
  | ViewDispatcherSwitchToViewDictAttack
  | SceneManagerSetSceneState DictAttackState
  | SceneManagerNextScene NfcScene
  | NotificationMessage NotificationSequence
  | DolphinDeedNfcReadSuccess
  | NfcBlinkReadStart
  | NfcBlinkStop
  | DictAttackReset
  | DictAttackSetHeader string
  | DictAttackSetCardState bool
  | DictAttackSetCallback
  | DictAttackSetTotalDictKeys "32 word"
  | DictAttackSetKeyAttack "8 word"
  | DictAttackResetKeyAttack
  | DictAttackSetSectorsTotal "8 word"
  | DictAttackSetSectorsRead "8 word"
  | DictAttackSetKeysFound "8 word"
  | DictAttackSetCurrentDictKey "32 word"
  | DictAttackSetCurrentSector "8 word"
  | DictAttackSetNestedPhase MfClassicNestedPhase
  | DictAttackSetPrngType MfClassicPrngType
  | DictAttackSetBackdoor MfClassicBackdoor
  | DictAttackSetNestedTargetKey "16 word"
  | DictAttackSetMsbCount "16 word"

text \<open>
  The poller (the card session): the card data it has read so far, which
  \<^verbatim>\<open>nfc_poller_get_data\<close> returns, and whether it is running.
\<close>

record 'd NfcPoller =
  poller_data :: 'd
  poller_started :: bool

text \<open>
  The functions of the card library (\<^verbatim>\<open>lib/nfc\<close>) that the scene calls on card data are not
  among the sources and the specification does not define them; the model takes them as
  parameters. \<^verbatim>\<open>mf_classic_get_total_sectors_num\<close> is applied to the type field of the card
  data in the source, here to the card data. \<open>poller_fresh_data\<close> is the card data of a
  poller that was just allocated.
\<close>

record 'd MfClassicLib =
  mf_classic_get_total_sectors_num :: "'d \<Rightarrow> 8 word"
  mf_classic_get_read_sectors_and_keys :: "'d \<Rightarrow> 8 word \<times> 8 word"
  mf_classic_is_card_read :: "'d \<Rightarrow> bool"
  poller_fresh_data :: 'd

text \<open>
  \<^verbatim>\<open>NfcApp\<close>, reduced to what the scene reads: its context, the state the scene manager
  keeps for this scene (a \<^verbatim>\<open>uint32_t\<close> in which the scene stores the two values of its
  enum), the card data of the device record, the poller, the storage, and the log of
  calls.
\<close>

record 'd NfcApp =
  nfc_dict_context :: NfcMfClassicDictAttackContext
  scene_state :: DictAttackState
  nfc_device :: 'd
  poller :: "'d NfcPoller option"
  storage :: Storage
  calls :: "'d call list"

subsection \<open>Collaborators\<close>

text \<open>A call to a collaborator is logged.\<close>

definition emit :: "'d call \<Rightarrow> 'd NfcApp \<Rightarrow> 'd NfcApp" where
  "emit c app = calls_update (\<lambda>cs. cs @ [c]) app"

text \<open>
  Modelled from the spec: the view dispatcher is not among the sources. Section 4.2 calls
  \<^verbatim>\<open>view_dispatcher_send_custom_event\<close> "notify observer"; the event is queued for the scene
  manager, which delivers it to \<^verbatim>\<open>on_event\<close> later. The model logs the call.
\<close>

definition view_dispatcher_send_custom_event :: "NfcCustomEvent \<Rightarrow> 'd NfcApp \<Rightarrow> 'd NfcApp" where
  "view_dispatcher_send_custom_event e app = emit (ViewDispatcherSendCustomEvent e) app"

text \<open>
  Modelled from the spec: the scene manager is not among the sources. Section 9 describes
  the scene state as the phase, stored by the scene manager as an integer; this scene
  stores nothing but the two values of \<open>DictAttackState\<close> there.
\<close>

definition scene_manager_get_scene_state :: "'d NfcApp \<Rightarrow> DictAttackState" where
  "scene_manager_get_scene_state app = scene_state app"

text \<open>Modelled from the spec: as above; the state is stored and the call logged.\<close>

definition scene_manager_set_scene_state :: "DictAttackState \<Rightarrow> 'd NfcApp \<Rightarrow> 'd NfcApp" where
  "scene_manager_set_scene_state s app = emit (SceneManagerSetSceneState s) (app\<lparr>scene_state := s\<rparr>)"

text \<open>
  Modelled from the spec: the device record is not among the sources. Section 6 names
  \<open>set_data(protocol, data)\<close>, which persists card data in the record;
  \<^verbatim>\<open>nfc_device_get_data\<close> reads what the record holds.
\<close>

definition nfc_device_get_data :: "'d NfcApp \<Rightarrow> 'd" where
  "nfc_device_get_data app = nfc_device app"

text \<open>Modelled from the spec: as above; the data is stored and the call logged.\<close>

definition nfc_device_set_data :: "'d \<Rightarrow> 'd NfcApp \<Rightarrow> 'd NfcApp" where
  "nfc_device_set_data d app = emit (NfcDeviceSetData d) (app\<lparr>nfc_device := d\<rparr>)"

text \<open>
  Modelled from the spec: the poller library is not among the sources. Sections 2 and 4.2
  describe the card session as an external driver that the scene starts, stops and
  releases, and whose card data it reads. Allocation yields a poller that is not running.
\<close>

definition nfc_poller_alloc :: "'d MfClassicLib \<Rightarrow> 'd NfcApp \<Rightarrow> 'd NfcApp" where
  "nfc_poller_alloc lib app =
     emit NfcPollerAlloc
       (app\<lparr>poller := Some \<lparr>poller_data = poller_fresh_data lib, poller_started = False\<rparr>\<rparr>)"

text \<open>
  Modelled from the spec: as above. Starting, stopping, freeing and reading need a live
  poller; a freed poller is no longer live.
\<close>

definition nfc_poller_start :: "'d NfcApp \<Rightarrow> 'd NfcApp option" where
  "nfc_poller_start app =
     (case poller app of
        None \<Rightarrow> None
      | Some p \<Rightarrow> Some (emit NfcPollerStart (app\<lparr>poller := Some (p\<lparr>poller_started := True\<rparr>)\<rparr>)))"

text \<open>Modelled from the spec: as above.\<close>

definition nfc_poller_stop :: "'d NfcApp \<Rightarrow> 'd NfcApp option" where
  "nfc_poller_stop app =
     (case poller app of
        None \<Rightarrow> None
      | Some p \<Rightarrow> Some (emit NfcPollerStop (app\<lparr>poller := Some (p\<lparr>poller_started := False\<rparr>)\<rparr>)))"

text \<open>Modelled from the spec: as above.\<close>

definition nfc_poller_free :: "'d NfcApp \<Rightarrow> 'd NfcApp option" where
  "nfc_poller_free app =
     (case poller app of
        None \<Rightarrow> None
      | Some p \<Rightarrow> Some (emit NfcPollerFree (app\<lparr>poller := None\<rparr>)))"

text \<open>Modelled from the spec: as above; the card data the session holds.\<close>

definition nfc_poller_get_data :: "'d NfcApp \<Rightarrow> 'd option" where
  "nfc_poller_get_data app = map_option poller_data (poller app)"

text \<open>
  Modelled from the spec: the storage service is not among the sources. Section 6 names
  \<open>remove(path)\<close> and \<open>copy(src, dst)\<close>; the scene ignores their results, so a copy
  whose source is absent changes nothing.
\<close>

definition storage_common_remove :: "dict_path \<Rightarrow> 'd NfcApp \<Rightarrow> 'd NfcApp" where
  "storage_common_remove p app =
     emit (StorageCommonRemove p) (storage_update (\<lambda>st. st(p := None)) app)"

text \<open>
  Modelled from the spec: as above. The scene removes the target before every copy, so
  the copy never meets an existing target.
\<close>

definition storage_common_copy :: "dict_path \<Rightarrow> dict_path \<Rightarrow> 'd NfcApp \<Rightarrow> 'd NfcApp" where
  "storage_common_copy src dst app =
     emit (StorageCommonCopy src dst)
       (storage_update (\<lambda>st. case st src of None \<Rightarrow> st | Some ks \<Rightarrow> st(dst \<mapsto> ks)) app)"

text \<open>
  Modelled from the spec: the dictionary library (\<^verbatim>\<open>keys_dict_*\<close>) is not among the sources;
  the definitions that follow are read off section 4.1 of the specification.
  \<open>check_presence\<close> is a non-mutating existence check.
\<close>

definition keys_dict_check_presence :: "Storage \<Rightarrow> dict_path \<Rightarrow> bool" where
  "keys_dict_check_presence st p = (st p \<noteq> None)"

text \<open>
  Modelled from the spec: a handle just opened. The cursor is at the start and the total
  is the count of candidates, cached at open (as a u32).
\<close>

definition keys_dict_open :: "MfClassicKey list \<Rightarrow> KeysDict" where
  "keys_dict_open ks = \<lparr>dict_keys = ks, cursor = 0, total_keys = of_nat (length ks)\<rparr>"

text \<open>
  Modelled from the spec: \<open>open(path, mode)\<close>. \<open>MustExist\<close>
  (\<^verbatim>\<open>KeysDictModeOpenExisting\<close>) fails if the path is absent: no handle is returned.
  \<open>CreateIfAbsent\<close> (\<^verbatim>\<open>KeysDictModeOpenAlways\<close>) creates an empty dictionary if absent.
\<close>

definition keys_dict_alloc :: "dict_path \<Rightarrow> KeysDictMode \<Rightarrow> 'd NfcApp \<Rightarrow> KeysDict option \<times> 'd NfcApp" where
  "keys_dict_alloc p m app =
     (case storage app p of
        Some ks \<Rightarrow> (Some (keys_dict_open ks), emit (KeysDictAlloc p m) app)
      | None \<Rightarrow>
          (case m of
             KeysDictModeOpenAlways \<Rightarrow>
               (Some (keys_dict_open []),
                emit (KeysDictAlloc p m) (storage_update (\<lambda>st. st(p \<mapsto> [])) app))
           | KeysDictModeOpenExisting \<Rightarrow> (None, emit (KeysDictAlloc p m) app)))"

text \<open>
  Modelled from the spec: \<open>total_keys(handle)\<close>, the cached count. Like every operation
  on a handle it needs a live one.
\<close>

definition keys_dict_get_total_keys :: "KeysDict option \<Rightarrow> 32 word option" where
  "keys_dict_get_total_keys h = map_option total_keys h"

text \<open>
  Modelled from the spec: \<open>next_key(handle)\<close> returns the next candidate and advances
  the cursor; it returns nothing once the dictionary is exhausted.
\<close>

definition keys_dict_get_next_key :: "KeysDict option \<Rightarrow> (MfClassicKey option \<times> KeysDict) option" where
  "keys_dict_get_next_key h =
     (case h of
        None \<Rightarrow> None
      | Some d \<Rightarrow>
          if cursor d < length (dict_keys d)
          then Some (Some (dict_keys d ! cursor d), d\<lparr>cursor := Suc (cursor d)\<rparr>)
          else Some (None, d))"

text \<open>
  Modelled from the spec: \<open>rewind(handle)\<close> resets the cursor to the start. The scene
  only ever rewinds the handle of its context, \<^verbatim>\<open>instance->nfc_dict_context.dict\<close>.
\<close>

definition keys_dict_rewind :: "'d NfcApp \<Rightarrow> 'd NfcApp option" where
  "keys_dict_rewind app =
     (case dict (nfc_dict_context app) of
        None \<Rightarrow> None
      | Some d \<Rightarrow>
          Some (emit KeysDictRewind
            (nfc_dict_context_update (\<lambda>c. c\<lparr>dict := Some (d\<lparr>cursor := 0\<rparr>)\<rparr>) app)))"

text \<open>
  Modelled from the spec: \<open>release(handle)\<close> frees the handle of the context, which is
  then no longer live.
\<close>

definition keys_dict_free :: "'d NfcApp \<Rightarrow> 'd NfcApp option" where
  "keys_dict_free app =
     (case dict (nfc_dict_context app) of
        None \<Rightarrow> None
      | Some d \<Rightarrow>
          Some (emit KeysDictFree
            (nfc_dict_context_update (\<lambda>c. c\<lparr>dict := None\<rparr>) app)))"

subsection \<open>The worker callback\<close>

text \<open>
  \<^verbatim>\<open>nfc_dict_attack_worker_callback\<close>: the command returned to the poller, what was written
  into the event's data, and the application object.
\<close>

fun nfc_dict_attack_worker_callback ::
  "'d MfClassicLib \<Rightarrow> MfClassicPollerEvent \<Rightarrow> 'd NfcApp
     \<Rightarrow> (NfcCommand \<times> 'd MfClassicPollerEventData \<times> 'd NfcApp) option" where
  "nfc_dict_attack_worker_callback lib MfClassicPollerEventTypeCardDetected app =
     (let app = nfc_dict_context_update (\<lambda>c. c\<lparr>is_card_present := True\<rparr>) app;
          app = view_dispatcher_send_custom_event NfcCustomEventCardDetected app
      in Some (NfcCommandContinue, NoEventData, app))"
| "nfc_dict_attack_worker_callback lib MfClassicPollerEventTypeCardLost app =
     (let app = nfc_dict_context_update (\<lambda>c. c\<lparr>is_card_present := False\<rparr>) app;
          app = view_dispatcher_send_custom_event NfcCustomEventCardLost app
      in Some (NfcCommandContinue, NoEventData, app))"
| "nfc_dict_attack_worker_callback lib MfClassicPollerEventTypeRequestMode app =
     (let mfc_data = nfc_device_get_data app;
          app = nfc_dict_context_update (\<lambda>c. c
                  \<lparr>sectors_total := mf_classic_get_total_sectors_num lib mfc_data\<rparr>) app;
          app = nfc_dict_context_update (\<lambda>c. c
                  \<lparr>sectors_read := fst (mf_classic_get_read_sectors_and_keys lib mfc_data),
                   keys_found := snd (mf_classic_get_read_sectors_and_keys lib mfc_data)\<rparr>) app;
          app = view_dispatcher_send_custom_event NfcCustomEventDictAttackDataUpdate app
      in Some (NfcCommandContinue, PollerModeData MfClassicPollerModeDictAttack mfc_data, app))"
| "nfc_dict_attack_worker_callback lib MfClassicPollerEventTypeRequestKey app =
     (case keys_dict_get_next_key (dict (nfc_dict_context app)) of
        None \<Rightarrow> None
      | Some (Some key, d) \<Rightarrow>
          (let app = nfc_dict_context_update (\<lambda>c. c\<lparr>dict := Some d\<rparr>) app;
               app = nfc_dict_context_update (\<lambda>c. c
                       \<lparr>dict_keys_current := dict_keys_current c + 1\<rparr>) app;
               app = (if dict_keys_current (nfc_dict_context app) mod 10 = 0
                      then view_dispatcher_send_custom_event NfcCustomEventDictAttackDataUpdate app
                      else app)
           in Some (NfcCommandContinue, KeyProvided key, app))
      | Some (None, d) \<Rightarrow>
          Some (NfcCommandContinue, KeyNotProvided,
                nfc_dict_context_update (\<lambda>c. c\<lparr>dict := Some d\<rparr>) app))"
| "nfc_dict_attack_worker_callback lib (MfClassicPollerEventTypeDataUpdate data_update) app =
     (let app = nfc_dict_context_update (\<lambda>c. c
                  \<lparr>sectors_read := upd_sectors_read data_update,
                   keys_found := upd_keys_found data_update,
                   current_sector := upd_current_sector data_update,
                   nested_phase := upd_nested_phase data_update,
                   prng_type := upd_prng_type data_update,
                   backdoor := upd_backdoor data_update,
                   nested_target_key := upd_nested_target_key data_update,
                   msb_count := upd_msb_count data_update\<rparr>) app;
          app = view_dispatcher_send_custom_event NfcCustomEventDictAttackDataUpdate app
      in Some (NfcCommandContinue, NoEventData, app))"
| "nfc_dict_attack_worker_callback lib (MfClassicPollerEventTypeNextSector sector) app =
     do {
       app \<leftarrow> keys_dict_rewind app;
       let app = nfc_dict_context_update (\<lambda>c. c\<lparr>dict_keys_current := 0\<rparr>) app;
       let app = nfc_dict_context_update (\<lambda>c. c\<lparr>current_sector := sector\<rparr>) app;
       let app = view_dispatcher_send_custom_event NfcCustomEventDictAttackDataUpdate app;
       Some (NfcCommandContinue, NoEventData, app)
     }"
| "nfc_dict_attack_worker_callback lib MfClassicPollerEventTypeFoundKeyA app =
     Some (NfcCommandContinue, NoEventData,
           view_dispatcher_send_custom_event NfcCustomEventDictAttackDataUpdate app)"
| "nfc_dict_attack_worker_callback lib MfClassicPollerEventTypeFoundKeyB app =
     Some (NfcCommandContinue, NoEventData,
           view_dispatcher_send_custom_event NfcCustomEventDictAttackDataUpdate app)"
| "nfc_dict_attack_worker_callback lib (MfClassicPollerEventTypeKeyAttackStart sector) app =
     (let app = nfc_dict_context_update (\<lambda>c. c
                  \<lparr>key_attack_current_sector := sector\<rparr>) app;
          app = nfc_dict_context_update (\<lambda>c. c\<lparr>is_key_attack := True\<rparr>) app;
          app = view_dispatcher_send_custom_event NfcCustomEventDictAttackDataUpdate app
      in Some (NfcCommandContinue, NoEventData, app))"
| "nfc_dict_attack_worker_callback lib MfClassicPollerEventTypeKeyAttackStop app =
     do {
       app \<leftarrow> keys_dict_rewind app;
       let app = nfc_dict_context_update (\<lambda>c. c\<lparr>is_key_attack := False\<rparr>) app;
       let app = nfc_dict_context_update (\<lambda>c. c\<lparr>dict_keys_current := 0\<rparr>) app;
       let app = view_dispatcher_send_custom_event NfcCustomEventDictAttackDataUpdate app;
       Some (NfcCommandContinue, NoEventData, app)
     }"
| "nfc_dict_attack_worker_callback lib MfClassicPollerEventTypeSuccess app =
     do {
       mfc_data \<leftarrow> nfc_poller_get_data app;
       let app = nfc_device_set_data mfc_data app;
       let app = view_dispatcher_send_custom_event NfcCustomEventDictAttackComplete app;
       Some (NfcCommandStop, NoEventData, app)
     }"
| "nfc_dict_attack_worker_callback lib MfClassicPollerEventTypeOther app =
     Some (NfcCommandContinue, NoEventData, app)"

subsection \<open>The scene\<close>

text \<open>\<^verbatim>\<open>nfc_dict_attack_dict_attack_result_callback\<close>: the view reports that skip was pressed.\<close>

fun nfc_dict_attack_dict_attack_result_callback :: "DictAttackEvent \<Rightarrow> 'd NfcApp \<Rightarrow> 'd NfcApp" where
  "nfc_dict_attack_dict_attack_result_callback DictAttackEventSkipPressed app =
     view_dispatcher_send_custom_event NfcCustomEventDictAttackSkip app"

definition nfc_scene_mf_classic_dict_attack_update_view :: "'d NfcApp \<Rightarrow> 'd NfcApp" where
  "nfc_scene_mf_classic_dict_attack_update_view app =
     (let mfc_dict = nfc_dict_context app in
      if is_key_attack mfc_dict
      then emit (DictAttackSetKeyAttack (key_attack_current_sector mfc_dict)) app
      else
        (let app = emit DictAttackResetKeyAttack app;
             app = emit (DictAttackSetSectorsTotal (sectors_total mfc_dict)) app;
             app = emit (DictAttackSetSectorsRead (sectors_read mfc_dict)) app;
             app = emit (DictAttackSetKeysFound (keys_found mfc_dict)) app;
             app = emit (DictAttackSetCurrentDictKey (dict_keys_current mfc_dict)) app;
             app = emit (DictAttackSetCurrentSector (current_sector mfc_dict)) app;
             app = emit (DictAttackSetNestedPhase (nested_phase mfc_dict)) app;
             app = emit (DictAttackSetPrngType (prng_type mfc_dict)) app;
             app = emit (DictAttackSetBackdoor (backdoor mfc_dict)) app;
             app = emit (DictAttackSetNestedTargetKey (nested_target_key mfc_dict)) app;
             app = emit (DictAttackSetMsbCount (msb_count mfc_dict)) app
         in app))"

text \<open>
  \<^verbatim>\<open>nfc_scene_mf_classic_dict_attack_prepare_view\<close>. The first block is the source's
  \<^verbatim>\<open>do { ... } while(false)\<close>: each \<^verbatim>\<open>break\<close> leaves it with the state set to the system
  dictionary. It yields the local variable \<^verbatim>\<open>state\<close> with the application object.
\<close>

definition nfc_scene_mf_classic_dict_attack_prepare_view :: "'d NfcApp \<Rightarrow> 'd NfcApp option" where
  "nfc_scene_mf_classic_dict_attack_prepare_view app =
     do {
       let state = scene_manager_get_scene_state app;
       (state, app) \<leftarrow>
         (if state = DictAttackStateUserDictInProgress then
            (let app = storage_common_remove NFC_APP_MF_CLASSIC_DICT_SYSTEM_NESTED_PATH app;
                 app = storage_common_copy NFC_APP_MF_CLASSIC_DICT_SYSTEM_PATH
                         NFC_APP_MF_CLASSIC_DICT_SYSTEM_NESTED_PATH app
             in
             if \<not> keys_dict_check_presence (storage app) NFC_APP_MF_CLASSIC_DICT_USER_PATH
             then Some (DictAttackStateSystemDictInProgress, app)
             else
               (let app = storage_common_remove NFC_APP_MF_CLASSIC_DICT_USER_NESTED_PATH app;
                    app = storage_common_copy NFC_APP_MF_CLASSIC_DICT_USER_PATH
                            NFC_APP_MF_CLASSIC_DICT_USER_NESTED_PATH app;
                    (h, app) = keys_dict_alloc NFC_APP_MF_CLASSIC_DICT_USER_PATH
                                 KeysDictModeOpenAlways app;
                    app = nfc_dict_context_update (\<lambda>c. c\<lparr>dict := h\<rparr>) app
                in
                do {
                  total \<leftarrow> keys_dict_get_total_keys (dict (nfc_dict_context app));
                  if total = 0
                  then do {
                    app \<leftarrow> keys_dict_free app;
                    Some (DictAttackStateSystemDictInProgress, app)
                  }
                  else Some (state, emit (DictAttackSetHeader ''MF Classic User Dictionary'') app)
                }))
          else Some (state, app));
       let app =
         (if state = DictAttackStateSystemDictInProgress then
            (let app = storage_common_remove NFC_APP_MF_CLASSIC_DICT_SYSTEM_NESTED_PATH app;
                 app = storage_common_copy NFC_APP_MF_CLASSIC_DICT_SYSTEM_PATH
                         NFC_APP_MF_CLASSIC_DICT_SYSTEM_NESTED_PATH app;
                 (h, app) = keys_dict_alloc NFC_APP_MF_CLASSIC_DICT_SYSTEM_PATH
                              KeysDictModeOpenExisting app;
                 app = nfc_dict_context_update (\<lambda>c. c\<lparr>dict := h\<rparr>) app
             in emit (DictAttackSetHeader ''MF Classic System Dictionary'') app)
          else app);
       total \<leftarrow> keys_dict_get_total_keys (dict (nfc_dict_context app));
       let app = nfc_dict_context_update (\<lambda>c. c\<lparr>dict_keys_total := total\<rparr>) app;
       let app = emit (DictAttackSetTotalDictKeys (dict_keys_total (nfc_dict_context app))) app;
       let app = nfc_dict_context_update (\<lambda>c. c\<lparr>dict_keys_current := 0\<rparr>) app;
       let app = emit DictAttackSetCallback app;
       let app = nfc_scene_mf_classic_dict_attack_update_view app;
       Some (scene_manager_set_scene_state state app)
     }"

definition nfc_scene_mf_classic_dict_attack_on_enter :: "'d MfClassicLib \<Rightarrow> 'd NfcApp \<Rightarrow> 'd NfcApp option" where
  "nfc_scene_mf_classic_dict_attack_on_enter lib app =
     do {
       let app = scene_manager_set_scene_state DictAttackStateUserDictInProgress app;
       app \<leftarrow> nfc_scene_mf_classic_dict_attack_prepare_view app;
       let app = emit (DictAttackSetCardState True) app;
       let app = emit ViewDispatcherSwitchToViewDictAttack app;
       let app = emit NfcBlinkReadStart app;
       let app = nfc_poller_alloc lib app;
       nfc_poller_start app
     }"

definition nfc_scene_mf_classic_dict_attack_notify_read :: "'d MfClassicLib \<Rightarrow> 'd NfcApp \<Rightarrow> 'd NfcApp option" where
  "nfc_scene_mf_classic_dict_attack_notify_read lib app =
     do {
       mfc_data \<leftarrow> nfc_poller_get_data app;
       let is_card_fully_read = mf_classic_is_card_read lib mfc_data;
       if is_card_fully_read
       then Some (emit (NotificationMessage sequence_success) app)
       else Some (emit (NotificationMessage sequence_semi_success) app)
     }"

text \<open>\<^verbatim>\<open>nfc_scene_mf_classic_dict_attack_on_event\<close>: whether the event was consumed.\<close>

definition nfc_scene_mf_classic_dict_attack_on_event ::
  "'d MfClassicLib \<Rightarrow> 'd NfcApp \<Rightarrow> SceneManagerEvent \<Rightarrow> (bool \<times> 'd NfcApp) option" where
  "nfc_scene_mf_classic_dict_attack_on_event lib app event =
     (let state = scene_manager_get_scene_state app in
      case event of
        SceneManagerEventTypeCustom NfcCustomEventDictAttackComplete \<Rightarrow>
          (if state = DictAttackStateUserDictInProgress
           then do {
                  app \<leftarrow> nfc_poller_stop app;
                  app \<leftarrow> nfc_poller_free app;
                  app \<leftarrow> keys_dict_free app;
                  let app = scene_manager_set_scene_state DictAttackStateSystemDictInProgress app;
                  app \<leftarrow> nfc_scene_mf_classic_dict_attack_prepare_view app;
                  let app = nfc_poller_alloc lib app;
                  app \<leftarrow> nfc_poller_start app;
                  Some (True, app)
                }
           else do {
                  app \<leftarrow> nfc_scene_mf_classic_dict_attack_notify_read lib app;
                  let app = emit (SceneManagerNextScene NfcSceneReadSuccess) app;
                  let app = emit DolphinDeedNfcReadSuccess app;
                  Some (True, app)
                })
      | SceneManagerEventTypeCustom NfcCustomEventCardDetected \<Rightarrow>
          Some (True, emit (DictAttackSetCardState True) app)
      | SceneManagerEventTypeCustom NfcCustomEventCardLost \<Rightarrow>
          Some (True, emit (DictAttackSetCardState False) app)
      | SceneManagerEventTypeCustom NfcCustomEventDictAttackDataUpdate \<Rightarrow>
          Some (False, nfc_scene_mf_classic_dict_attack_update_view app)
      | SceneManagerEventTypeCustom NfcCustomEventDictAttackSkip \<Rightarrow>
          do {
            mfc_data \<leftarrow> nfc_poller_get_data app;
            let app = nfc_device_set_data mfc_data app;
            if state = DictAttackStateUserDictInProgress then
              (if is_card_present (nfc_dict_context app)
               then do {
                      app \<leftarrow> nfc_poller_stop app;
                      app \<leftarrow> nfc_poller_free app;
                      app \<leftarrow> keys_dict_free app;
                      let app = scene_manager_set_scene_state DictAttackStateSystemDictInProgress app;
                      app \<leftarrow> nfc_scene_mf_classic_dict_attack_prepare_view app;
                      let app = nfc_poller_alloc lib app;
                      app \<leftarrow> nfc_poller_start app;
                      Some (True, app)
                    }
               else do {
                      app \<leftarrow> nfc_scene_mf_classic_dict_attack_notify_read lib app;
                      let app = emit (SceneManagerNextScene NfcSceneReadSuccess) app;
                      let app = emit DolphinDeedNfcReadSuccess app;
                      Some (True, app)
                    })
            else if state = DictAttackStateSystemDictInProgress then
              do {
                app \<leftarrow> nfc_scene_mf_classic_dict_attack_notify_read lib app;
                let app = emit (SceneManagerNextScene NfcSceneReadSuccess) app;
                let app = emit DolphinDeedNfcReadSuccess app;
                Some (True, app)
              }
            else Some (False, app)
          }
      | SceneManagerEventTypeCustom NfcCustomEventOther \<Rightarrow> Some (False, app)
      | SceneManagerEventTypeBack \<Rightarrow>
          Some (True, emit (SceneManagerNextScene NfcSceneExitConfirm) app)
      | SceneManagerEventTypeTick \<Rightarrow> Some (False, app))"

definition nfc_scene_mf_classic_dict_attack_on_exit :: "'d NfcApp \<Rightarrow> 'd NfcApp option" where
  "nfc_scene_mf_classic_dict_attack_on_exit app =
     do {
       app \<leftarrow> nfc_poller_stop app;
       app \<leftarrow> nfc_poller_free app;
       let app = emit DictAttackReset app;
       let app = scene_manager_set_scene_state DictAttackStateUserDictInProgress app;
       app \<leftarrow> keys_dict_free app;
       let app = nfc_dict_context_update (\<lambda>c. c
                  \<lparr>current_sector := 0,
                   sectors_total := 0,
                   sectors_read := 0,
                   keys_found := 0,
                   dict_keys_total := 0,
                   dict_keys_current := 0,
                   is_key_attack := False,
                   key_attack_current_sector := 0,
                   is_card_present := False,
                   nested_phase := MfClassicNestedPhaseNone,
                   prng_type := MfClassicPrngTypeUnknown,
                   backdoor := MfClassicBackdoorUnknown\<rparr>) app;
       Some (emit NfcBlinkStop app)
     }"

subsection \<open>Runs\<close>

text \<open>
  What can happen to the scene: the scene manager enters it, delivers an event to it or
  leaves it; the poller calls the worker callback; the poller reads more of the card (its
  data changes); the view reports a key press. A run is any sequence of these. The custom
  events that the callbacks send are delivered by the scene manager as events of the
  scene; a run need not deliver them, and may deliver others.
\<close>

datatype 'd input =
    Enter
  | Session MfClassicPollerEvent
  | PollerRead 'd
  | View DictAttackEvent
  | Scene SceneManagerEvent
  | Exit

fun step :: "'d MfClassicLib \<Rightarrow> 'd input \<Rightarrow> 'd NfcApp \<Rightarrow> 'd NfcApp option" where
  "step lib Enter app = nfc_scene_mf_classic_dict_attack_on_enter lib app"
| "step lib (Session ev) app =
     map_option (\<lambda>(command, data, app). app) (nfc_dict_attack_worker_callback lib ev app)"
| "step lib (PollerRead d) app =
     (case poller app of
        None \<Rightarrow> Some app
      | Some p \<Rightarrow> Some (app\<lparr>poller := Some (p\<lparr>poller_data := d\<rparr>)\<rparr>))"
| "step lib (View ev) app = Some (nfc_dict_attack_dict_attack_result_callback ev app)"
| "step lib (Scene ev) app = map_option snd (nfc_scene_mf_classic_dict_attack_on_event lib app ev)"
| "step lib Exit app = nfc_scene_mf_classic_dict_attack_on_exit app"

fun run :: "'d MfClassicLib \<Rightarrow> 'd input list \<Rightarrow> 'd NfcApp \<Rightarrow> 'd NfcApp option" where
  "run lib [] app = Some app"
| "run lib (i # ins) app = (case step lib i app of None \<Rightarrow> None | Some app' \<Rightarrow> run lib ins app')"

text \<open>The calls a step has added to the log.\<close>

definition new_calls :: "'d NfcApp \<Rightarrow> 'd NfcApp \<Rightarrow> 'd call list" where
  "new_calls app app' = drop (length (calls app)) (calls app')"

subsection \<open>Notions used in the statements\<close>

text \<open>The calls that only set a field of the view.\<close>

fun is_view_call :: "'d call \<Rightarrow> bool" where
  "is_view_call DictAttackReset = True"
| "is_view_call (DictAttackSetHeader _) = True"
| "is_view_call (DictAttackSetCardState _) = True"
| "is_view_call DictAttackSetCallback = True"
| "is_view_call (DictAttackSetTotalDictKeys _) = True"
| "is_view_call (DictAttackSetKeyAttack _) = True"
| "is_view_call DictAttackResetKeyAttack = True"
| "is_view_call (DictAttackSetSectorsTotal _) = True"
| "is_view_call (DictAttackSetSectorsRead _) = True"
| "is_view_call (DictAttackSetKeysFound _) = True"
| "is_view_call (DictAttackSetCurrentDictKey _) = True"
| "is_view_call (DictAttackSetCurrentSector _) = True"
| "is_view_call (DictAttackSetNestedPhase _) = True"
| "is_view_call (DictAttackSetPrngType _) = True"
| "is_view_call (DictAttackSetBackdoor _) = True"
| "is_view_call (DictAttackSetNestedTargetKey _) = True"
| "is_view_call (DictAttackSetMsbCount _) = True"
| "is_view_call _ = False"

text \<open>The calls that open or release a dictionary or a poller.\<close>

fun is_handle_call :: "'d call \<Rightarrow> bool" where
  "is_handle_call (KeysDictAlloc _ _) = True"
| "is_handle_call KeysDictFree = True"
| "is_handle_call NfcPollerAlloc = True"
| "is_handle_call NfcPollerStart = True"
| "is_handle_call NfcPollerStop = True"
| "is_handle_call NfcPollerFree = True"
| "is_handle_call _ = False"

text \<open>The setter calls of \<^verbatim>\<open>update_view\<close>, as a list (used in the proofs).\<close>

definition update_view_calls :: "NfcMfClassicDictAttackContext \<Rightarrow> 'd call list" where
  "update_view_calls c =
     (if is_key_attack c then [DictAttackSetKeyAttack (key_attack_current_sector c)]
      else [DictAttackResetKeyAttack, DictAttackSetSectorsTotal (sectors_total c),
            DictAttackSetSectorsRead (sectors_read c), DictAttackSetKeysFound (keys_found c),
            DictAttackSetCurrentDictKey (dict_keys_current c),
            DictAttackSetCurrentSector (current_sector c),
            DictAttackSetNestedPhase (nested_phase c), DictAttackSetPrngType (prng_type c),
            DictAttackSetBackdoor (backdoor c),
            DictAttackSetNestedTargetKey (nested_target_key c),
            DictAttackSetMsbCount (msb_count c)])"

text \<open>
  The user dictionary is absent, or it is there and its total key count is zero: the two
  tests of \<^verbatim>\<open>prepare_view\<close> that leave the user phase.
\<close>

definition user_dict_absent_or_empty :: "Storage \<Rightarrow> bool" where
  "user_dict_absent_or_empty st =
     (case st NFC_APP_MF_CLASSIC_DICT_USER_PATH of
        None \<Rightarrow> True
      | Some ks \<Rightarrow> keys_dict_get_total_keys (Some (keys_dict_open ks)) = Some 0)"

text \<open>
  Every dictionary file holds fewer than \<open>2^32\<close> candidates, so that the cached total is
  the number of candidates.
\<close>

definition file_bounded :: "Storage \<Rightarrow> dict_path \<Rightarrow> bool" where
  "file_bounded st p = (case st p of None \<Rightarrow> True | Some ks \<Rightarrow> length ks < 2 ^ 32)"

definition files_bounded :: "Storage \<Rightarrow> bool" where
  "files_bounded st =
     (file_bounded st NFC_APP_MF_CLASSIC_DICT_USER_PATH \<and>
      file_bounded st NFC_APP_MF_CLASSIC_DICT_USER_NESTED_PATH \<and>
      file_bounded st NFC_APP_MF_CLASSIC_DICT_SYSTEM_PATH \<and>
      file_bounded st NFC_APP_MF_CLASSIC_DICT_SYSTEM_NESTED_PATH)"

text \<open>
  The counters of the context agree with the open dictionary: the cached total is the
  number of candidates and the counter is the cursor. With no dictionary open, the counter
  is at most the total.
\<close>

definition dict_in_sync :: "NfcMfClassicDictAttackContext \<Rightarrow> bool" where
  "dict_in_sync c =
     (case dict c of
        None \<Rightarrow> dict_keys_current c \<le> dict_keys_total c
      | Some d \<Rightarrow>
          length (dict_keys d) < 2 ^ 32 \<and> cursor d \<le> length (dict_keys d) \<and>
          dict_keys_total c = of_nat (length (dict_keys d)) \<and>
          dict_keys_current c = of_nat (cursor d))"

text \<open>The steps that rewind the dictionary, and the steps that enter a phase.\<close>

fun rewinds :: "'d input \<Rightarrow> bool" where
  "rewinds (Session (MfClassicPollerEventTypeNextSector _)) = True"
| "rewinds (Session MfClassicPollerEventTypeKeyAttackStop) = True"
| "rewinds _ = False"

fun enters_phase :: "'d input \<Rightarrow> 'd NfcApp \<Rightarrow> bool" where
  "enters_phase Enter app = True"
| "enters_phase (Scene (SceneManagerEventTypeCustom NfcCustomEventDictAttackComplete)) app =
     (scene_state app = DictAttackStateUserDictInProgress)"
| "enters_phase (Scene (SceneManagerEventTypeCustom NfcCustomEventDictAttackSkip)) app =
     (scene_state app = DictAttackStateUserDictInProgress \<and> is_card_present (nfc_dict_context app))"
| "enters_phase _ app = False"

text \<open>Counting the calls that persist card data to the device record.\<close>

fun is_set_data :: "'d call \<Rightarrow> bool" where
  "is_set_data (NfcDeviceSetData _) = True"
| "is_set_data _ = False"

definition set_data_count :: "'d call list \<Rightarrow> nat" where
  "set_data_count cs = length (filter is_set_data cs)"

fun persists :: "'d input \<Rightarrow> bool" where
  "persists (Session MfClassicPollerEventTypeSuccess) = True"
| "persists (Scene (SceneManagerEventTypeCustom NfcCustomEventDictAttackSkip)) = True"
| "persists _ = False"

subsection \<open>Concrete inputs\<close>

text \<open>
  Card data is here the pair of counters that the card library reads off it; a card is
  fully read when all of its 16 sectors are.
\<close>

definition lib0 :: "(8 word \<times> 8 word) MfClassicLib" where
  "lib0 = \<lparr>mf_classic_get_total_sectors_num = (\<lambda>d. 16),
           mf_classic_get_read_sectors_and_keys = (\<lambda>d. d),
           mf_classic_is_card_read = (\<lambda>d. fst d = 16),
           poller_fresh_data = (0, 0)\<rparr>"

definition K1 :: MfClassicKey where "K1 = [0xFF, 0xFF, 0xFF, 0xFF, 0xFF, 0xFF]"
definition K2 :: MfClassicKey where "K2 = [0xA0, 0xA1, 0xA2, 0xA3, 0xA4, 0xA5]"
definition K3 :: MfClassicKey where "K3 = [0xD3, 0xF7, 0xD3, 0xF7, 0xD3, 0xF7]"

definition ctx0 :: NfcMfClassicDictAttackContext where
  "ctx0 = \<lparr>dict = None, sectors_total = 0, sectors_read = 0, current_sector = 0,
            keys_found = 0, dict_keys_total = 0, dict_keys_current = 0, is_key_attack = False,
            key_attack_current_sector = 0, is_card_present = False,
            nested_phase = MfClassicNestedPhaseNone, prng_type = MfClassicPrngTypeUnknown,
            backdoor = MfClassicBackdoorUnknown, nested_target_key = 0, msb_count = 0\<rparr>"

text \<open>
  The application before the scene is entered, with a user dictionary of one key and a
  system dictionary of three; then with no user dictionary; then with an empty one.
\<close>

definition app0 :: "(8 word \<times> 8 word) NfcApp" where
  "app0 = \<lparr>nfc_dict_context = ctx0, scene_state = DictAttackStateUserDictInProgress,
            nfc_device = (1, 2), poller = None,
            storage = [NFC_APP_MF_CLASSIC_DICT_USER_PATH \<mapsto> [K1],
                       NFC_APP_MF_CLASSIC_DICT_SYSTEM_PATH \<mapsto> [K1, K2, K3]],
            calls = []\<rparr>"

definition app_no_user :: "(8 word \<times> 8 word) NfcApp" where
  "app_no_user = app0\<lparr>storage := [NFC_APP_MF_CLASSIC_DICT_SYSTEM_PATH \<mapsto> [K1, K2, K3]]\<rparr>"

definition app_empty_user :: "(8 word \<times> 8 word) NfcApp" where
  "app_empty_user = app0\<lparr>storage := [NFC_APP_MF_CLASSIC_DICT_USER_PATH \<mapsto> [],
                                       NFC_APP_MF_CLASSIC_DICT_SYSTEM_PATH \<mapsto> [K1, K2, K3]]\<rparr>"

text \<open>
  The application with a dictionary of three keys just opened, and with one of ten.
\<close>

definition app_open3 :: "(8 word \<times> 8 word) NfcApp" where
  "app_open3 =
     app0\<lparr>nfc_dict_context := ctx0\<lparr>dict := Some (keys_dict_open [K1, K2, K3]),
                                      dict_keys_total := 3\<rparr>\<rparr>"

definition app_open10 :: "(8 word \<times> 8 word) NfcApp" where
  "app_open10 =
     app0\<lparr>nfc_dict_context := ctx0\<lparr>dict := Some (keys_dict_open (replicate 10 K1)),
                                      dict_keys_total := 10\<rparr>\<rparr>"

text \<open>
  The application in the user phase, the single key of the user dictionary tried, a card
  in the field and the session running; the same with the card gone; the same in the
  system phase.
\<close>

definition app_user :: "(8 word \<times> 8 word) NfcApp" where
  "app_user =
     app0\<lparr>nfc_dict_context := ctx0\<lparr>dict := Some ((keys_dict_open [K1])\<lparr>cursor := 1\<rparr>),
                                      dict_keys_total := 1, dict_keys_current := 1,
                                      is_card_present := True\<rparr>,
          poller := Some \<lparr>poller_data = (3, 5), poller_started = True\<rparr>\<rparr>"

definition app_user_away :: "(8 word \<times> 8 word) NfcApp" where
  "app_user_away =
     app_user\<lparr>nfc_dict_context := (nfc_dict_context app_user)\<lparr>is_card_present := False\<rparr>\<rparr>"

definition app_system :: "(8 word \<times> 8 word) NfcApp" where
  "app_system =
     app0\<lparr>nfc_dict_context := ctx0\<lparr>dict := Some ((keys_dict_open [K1, K2, K3])\<lparr>cursor := 3\<rparr>),
                                      dict_keys_total := 3, dict_keys_current := 3,
                                      is_card_present := True\<rparr>,
          scene_state := DictAttackStateSystemDictInProgress,
          poller := Some \<lparr>poller_data = (3, 5), poller_started = True\<rparr>\<rparr>"

text \<open>A progress report of the session during a nested attack.\<close>

definition upd0 :: MfClassicPollerEventDataUpdate where
  "upd0 = \<lparr>upd_sectors_read = 3, upd_keys_found = 5, upd_current_sector = 4,
            upd_nested_phase = MfClassicNestedPhaseOther 1, upd_prng_type = MfClassicPrngTypeOther 1,
            upd_backdoor = MfClassicBackdoorOther 1, upd_nested_target_key = 9,
            upd_msb_count = 7\<rparr>"

section \<open>Properties\<close>

subsection \<open>The primitives\<close>

lemmas prim_defs =
  emit_def view_dispatcher_send_custom_event_def scene_manager_get_scene_state_def
  scene_manager_set_scene_state_def nfc_device_get_data_def nfc_device_set_data_def
  nfc_poller_alloc_def nfc_poller_start_def nfc_poller_stop_def nfc_poller_free_def
  nfc_poller_get_data_def storage_common_remove_def storage_common_copy_def
  keys_dict_check_presence_def keys_dict_alloc_def keys_dict_get_total_keys_def
  keys_dict_get_next_key_def keys_dict_rewind_def keys_dict_free_def

lemmas example_defs =
  lib0_def K1_def K2_def K3_def ctx0_def app0_def app_no_user_def app_empty_user_def
  app_open3_def app_open10_def app_user_def app_user_away_def app_system_def upd0_def keys_dict_open_def

lemmas scene_defs =
  nfc_scene_mf_classic_dict_attack_update_view_def nfc_scene_mf_classic_dict_attack_prepare_view_def
  nfc_scene_mf_classic_dict_attack_on_enter_def nfc_scene_mf_classic_dict_attack_notify_read_def
  nfc_scene_mf_classic_dict_attack_on_event_def nfc_scene_mf_classic_dict_attack_on_exit_def

subsection \<open>Entering a phase\<close>

lemma update_view_eq:
  "nfc_scene_mf_classic_dict_attack_update_view app =
     calls_update (\<lambda>cs. cs @ update_view_calls (nfc_dict_context app)) app"
  by (simp add: nfc_scene_mf_classic_dict_attack_update_view_def update_view_calls_def emit_def Let_def)

lemma update_view_calls_view [simp]: "filter (Not \<circ> is_view_call) (update_view_calls c) = []"
  by (simp add: update_view_calls_def)

lemma update_view_calls_handle [simp]: "filter is_handle_call (update_view_calls c) = []"
  by (simp add: update_view_calls_def)

lemma update_view_calls_set_data [simp]: "filter is_set_data (update_view_calls c) = []"
  by (simp add: update_view_calls_def)

lemmas prepare_view_defs =
  nfc_scene_mf_classic_dict_attack_prepare_view_def update_view_eq prim_defs keys_dict_open_def

lemma prepare_view_system:
  assumes "scene_state app = DictAttackStateSystemDictInProgress"
    and "storage app NFC_APP_MF_CLASSIC_DICT_SYSTEM_PATH = Some ks"
  shows "\<exists>app'. nfc_scene_mf_classic_dict_attack_prepare_view app = Some app' \<and>
     scene_state app' = DictAttackStateSystemDictInProgress \<and>
     poller app' = poller app \<and> nfc_device app' = nfc_device app \<and>
     storage app' = (storage app)(NFC_APP_MF_CLASSIC_DICT_SYSTEM_NESTED_PATH \<mapsto> ks) \<and>
     nfc_dict_context app' = (nfc_dict_context app)\<lparr>dict := Some (keys_dict_open ks),
        dict_keys_total := of_nat (length ks), dict_keys_current := 0\<rparr> \<and>
     calls app' = calls app @
       [StorageCommonRemove NFC_APP_MF_CLASSIC_DICT_SYSTEM_NESTED_PATH,
        StorageCommonCopy NFC_APP_MF_CLASSIC_DICT_SYSTEM_PATH NFC_APP_MF_CLASSIC_DICT_SYSTEM_NESTED_PATH,
        KeysDictAlloc NFC_APP_MF_CLASSIC_DICT_SYSTEM_PATH KeysDictModeOpenExisting,
        DictAttackSetHeader ''MF Classic System Dictionary'',
        DictAttackSetTotalDictKeys (of_nat (length ks)),
        DictAttackSetCallback] @
       update_view_calls ((nfc_dict_context app)\<lparr>dict := Some (keys_dict_open ks),
        dict_keys_total := of_nat (length ks), dict_keys_current := 0\<rparr>) @
       [SceneManagerSetSceneState DictAttackStateSystemDictInProgress]"
  using assms by (simp add: prepare_view_defs)

lemma prepare_view_system_missing:
  assumes "scene_state app = DictAttackStateSystemDictInProgress"
    and "storage app NFC_APP_MF_CLASSIC_DICT_SYSTEM_PATH = None"
  shows "nfc_scene_mf_classic_dict_attack_prepare_view app = None"
  using assms by (simp add: prepare_view_defs)

lemma prepare_view_user_absent:
  assumes "scene_state app = DictAttackStateUserDictInProgress"
    and "storage app NFC_APP_MF_CLASSIC_DICT_USER_PATH = None"
    and "storage app NFC_APP_MF_CLASSIC_DICT_SYSTEM_PATH = Some ks"
  shows "\<exists>app'. nfc_scene_mf_classic_dict_attack_prepare_view app = Some app' \<and>
     scene_state app' = DictAttackStateSystemDictInProgress \<and>
     poller app' = poller app \<and> nfc_device app' = nfc_device app \<and>
     storage app' = (storage app)(NFC_APP_MF_CLASSIC_DICT_SYSTEM_NESTED_PATH \<mapsto> ks) \<and>
     nfc_dict_context app' = (nfc_dict_context app)\<lparr>dict := Some (keys_dict_open ks),
        dict_keys_total := of_nat (length ks), dict_keys_current := 0\<rparr> \<and>
     calls app' = calls app @
       [StorageCommonRemove NFC_APP_MF_CLASSIC_DICT_SYSTEM_NESTED_PATH,
        StorageCommonCopy NFC_APP_MF_CLASSIC_DICT_SYSTEM_PATH NFC_APP_MF_CLASSIC_DICT_SYSTEM_NESTED_PATH,
        StorageCommonRemove NFC_APP_MF_CLASSIC_DICT_SYSTEM_NESTED_PATH,
        StorageCommonCopy NFC_APP_MF_CLASSIC_DICT_SYSTEM_PATH NFC_APP_MF_CLASSIC_DICT_SYSTEM_NESTED_PATH,
        KeysDictAlloc NFC_APP_MF_CLASSIC_DICT_SYSTEM_PATH KeysDictModeOpenExisting,
        DictAttackSetHeader ''MF Classic System Dictionary'',
        DictAttackSetTotalDictKeys (of_nat (length ks)),
        DictAttackSetCallback] @
       update_view_calls ((nfc_dict_context app)\<lparr>dict := Some (keys_dict_open ks),
        dict_keys_total := of_nat (length ks), dict_keys_current := 0\<rparr>) @
       [SceneManagerSetSceneState DictAttackStateSystemDictInProgress]"
  using assms by (simp add: prepare_view_defs)

lemma prepare_view_user_empty:
  assumes "scene_state app = DictAttackStateUserDictInProgress"
    and "storage app NFC_APP_MF_CLASSIC_DICT_USER_PATH = Some uks"
    and "(of_nat (length uks) :: 32 word) = 0"
    and "storage app NFC_APP_MF_CLASSIC_DICT_SYSTEM_PATH = Some ks"
  shows "\<exists>app'. nfc_scene_mf_classic_dict_attack_prepare_view app = Some app' \<and>
     scene_state app' = DictAttackStateSystemDictInProgress \<and>
     poller app' = poller app \<and> nfc_device app' = nfc_device app \<and>
     storage app' = (storage app)(NFC_APP_MF_CLASSIC_DICT_SYSTEM_NESTED_PATH \<mapsto> ks,
                                  NFC_APP_MF_CLASSIC_DICT_USER_NESTED_PATH \<mapsto> uks) \<and>
     nfc_dict_context app' = (nfc_dict_context app)\<lparr>dict := Some (keys_dict_open ks),
        dict_keys_total := of_nat (length ks), dict_keys_current := 0\<rparr> \<and>
     calls app' = calls app @
       [StorageCommonRemove NFC_APP_MF_CLASSIC_DICT_SYSTEM_NESTED_PATH,
        StorageCommonCopy NFC_APP_MF_CLASSIC_DICT_SYSTEM_PATH NFC_APP_MF_CLASSIC_DICT_SYSTEM_NESTED_PATH,
        StorageCommonRemove NFC_APP_MF_CLASSIC_DICT_USER_NESTED_PATH,
        StorageCommonCopy NFC_APP_MF_CLASSIC_DICT_USER_PATH NFC_APP_MF_CLASSIC_DICT_USER_NESTED_PATH,
        KeysDictAlloc NFC_APP_MF_CLASSIC_DICT_USER_PATH KeysDictModeOpenAlways,
        KeysDictFree,
        StorageCommonRemove NFC_APP_MF_CLASSIC_DICT_SYSTEM_NESTED_PATH,
        StorageCommonCopy NFC_APP_MF_CLASSIC_DICT_SYSTEM_PATH NFC_APP_MF_CLASSIC_DICT_SYSTEM_NESTED_PATH,
        KeysDictAlloc NFC_APP_MF_CLASSIC_DICT_SYSTEM_PATH KeysDictModeOpenExisting,
        DictAttackSetHeader ''MF Classic System Dictionary'',
        DictAttackSetTotalDictKeys (of_nat (length ks)),
        DictAttackSetCallback] @
       update_view_calls ((nfc_dict_context app)\<lparr>dict := Some (keys_dict_open ks),
        dict_keys_total := of_nat (length ks), dict_keys_current := 0\<rparr>) @
       [SceneManagerSetSceneState DictAttackStateSystemDictInProgress]"
  using assms by (simp add: prepare_view_defs fun_upd_twist)

lemma prepare_view_user_missing_system:
  assumes "scene_state app = DictAttackStateUserDictInProgress"
    and "user_dict_absent_or_empty (storage app)"
    and "storage app NFC_APP_MF_CLASSIC_DICT_SYSTEM_PATH = None"
  shows "nfc_scene_mf_classic_dict_attack_prepare_view app = None"
  using assms by (simp add: prepare_view_defs user_dict_absent_or_empty_def split: option.splits)

lemma prepare_view_user:
  assumes "scene_state app = DictAttackStateUserDictInProgress"
    and "storage app NFC_APP_MF_CLASSIC_DICT_USER_PATH = Some uks"
    and "(of_nat (length uks) :: 32 word) \<noteq> 0"
  shows "\<exists>app'. nfc_scene_mf_classic_dict_attack_prepare_view app = Some app' \<and>
     scene_state app' = DictAttackStateUserDictInProgress \<and>
     poller app' = poller app \<and> nfc_device app' = nfc_device app \<and>
     storage app' =
       (case storage app NFC_APP_MF_CLASSIC_DICT_SYSTEM_PATH of
          None \<Rightarrow> (storage app)(NFC_APP_MF_CLASSIC_DICT_SYSTEM_NESTED_PATH := None,
                                 NFC_APP_MF_CLASSIC_DICT_USER_NESTED_PATH \<mapsto> uks)
        | Some ks \<Rightarrow> (storage app)(NFC_APP_MF_CLASSIC_DICT_SYSTEM_NESTED_PATH \<mapsto> ks,
                                    NFC_APP_MF_CLASSIC_DICT_USER_NESTED_PATH \<mapsto> uks)) \<and>
     nfc_dict_context app' = (nfc_dict_context app)\<lparr>dict := Some (keys_dict_open uks),
        dict_keys_total := of_nat (length uks), dict_keys_current := 0\<rparr> \<and>
     calls app' = calls app @
       [StorageCommonRemove NFC_APP_MF_CLASSIC_DICT_SYSTEM_NESTED_PATH,
        StorageCommonCopy NFC_APP_MF_CLASSIC_DICT_SYSTEM_PATH NFC_APP_MF_CLASSIC_DICT_SYSTEM_NESTED_PATH,
        StorageCommonRemove NFC_APP_MF_CLASSIC_DICT_USER_NESTED_PATH,
        StorageCommonCopy NFC_APP_MF_CLASSIC_DICT_USER_PATH NFC_APP_MF_CLASSIC_DICT_USER_NESTED_PATH,
        KeysDictAlloc NFC_APP_MF_CLASSIC_DICT_USER_PATH KeysDictModeOpenAlways,
        DictAttackSetHeader ''MF Classic User Dictionary'',
        DictAttackSetTotalDictKeys (of_nat (length uks)),
        DictAttackSetCallback] @
       update_view_calls ((nfc_dict_context app)\<lparr>dict := Some (keys_dict_open uks),
        dict_keys_total := of_nat (length uks), dict_keys_current := 0\<rparr>) @
       [SceneManagerSetSceneState DictAttackStateUserDictInProgress]"
  using assms by (simp add: prepare_view_defs split: option.splits)

subsection \<open>Key requests\<close>

lemma request_key_provided:
  assumes "dict (nfc_dict_context app) = Some d" and "cursor d < length (dict_keys d)"
  shows "nfc_dict_attack_worker_callback lib MfClassicPollerEventTypeRequestKey app =
     Some (NfcCommandContinue, KeyProvided (dict_keys d ! cursor d),
       calls_update (\<lambda>cs. cs @ (if (dict_keys_current (nfc_dict_context app) + 1) mod 10 = 0
                                 then [ViewDispatcherSendCustomEvent NfcCustomEventDictAttackDataUpdate]
                                 else []))
         (nfc_dict_context_update
            (\<lambda>c. c\<lparr>dict := Some (d\<lparr>cursor := Suc (cursor d)\<rparr>),
                    dict_keys_current := dict_keys_current c + 1\<rparr>) app))"
  using assms by (simp add: prim_defs)

lemma request_key_exhausted:
  assumes "dict (nfc_dict_context app) = Some d" and "\<not> cursor d < length (dict_keys d)"
  shows "nfc_dict_attack_worker_callback lib MfClassicPollerEventTypeRequestKey app =
     Some (NfcCommandContinue, KeyNotProvided, app)"
  using assms by (simp add: prim_defs)

text \<open>
  The state after \<open>j\<close> key requests: the cursor has advanced by \<open>j\<close>, up to the end of
  the dictionary, and the counter with it.
\<close>

lemma run_request_keys:
  assumes "dict (nfc_dict_context app) = Some d" and "cursor d \<le> length (dict_keys d)"
  shows "\<exists>app_j. run lib (replicate j (Session MfClassicPollerEventTypeRequestKey)) app = Some app_j \<and>
     dict (nfc_dict_context app_j) = Some (d\<lparr>cursor := min (cursor d + j) (length (dict_keys d))\<rparr>) \<and>
     dict_keys_current (nfc_dict_context app_j) =
       dict_keys_current (nfc_dict_context app) +
       of_nat (min (cursor d + j) (length (dict_keys d)) - cursor d)"
  using assms
proof (induction j arbitrary: app d)
  case 0
  then show ?case by simp
next
  case (Suc j)
  show ?case
  proof (cases "cursor d < length (dict_keys d)")
    case True
    define app1 where "app1 =
      calls_update (\<lambda>cs. cs @ (if (dict_keys_current (nfc_dict_context app) + 1) mod 10 = 0
                                then [ViewDispatcherSendCustomEvent NfcCustomEventDictAttackDataUpdate]
                                else []))
        (nfc_dict_context_update
           (\<lambda>c. c\<lparr>dict := Some (d\<lparr>cursor := Suc (cursor d)\<rparr>),
                   dict_keys_current := dict_keys_current c + 1\<rparr>) app)"
    have st: "step lib (Session MfClassicPollerEventTypeRequestKey) app = Some app1"
      using request_key_provided[OF Suc.prems(1) True, of lib] by (simp add: app1_def)
    have d1: "dict (nfc_dict_context app1) = Some (d\<lparr>cursor := Suc (cursor d)\<rparr>)"
      by (simp add: app1_def)
    have c1: "cursor (d\<lparr>cursor := Suc (cursor d)\<rparr>)
                \<le> length (dict_keys (d\<lparr>cursor := Suc (cursor d)\<rparr>))"
      using True by simp
    from Suc.IH[OF d1 c1] obtain app_j where
      r: "run lib (replicate j (Session MfClassicPollerEventTypeRequestKey)) app1 = Some app_j"
      and dj: "dict (nfc_dict_context app_j) =
                 Some (d\<lparr>cursor := min (Suc (cursor d) + j) (length (dict_keys d))\<rparr>)"
      and kj: "dict_keys_current (nfc_dict_context app_j) =
                 dict_keys_current (nfc_dict_context app1) +
                 of_nat (min (Suc (cursor d) + j) (length (dict_keys d)) - Suc (cursor d))"
      by auto
    have k1: "dict_keys_current (nfc_dict_context app1) = dict_keys_current (nfc_dict_context app) + 1"
      by (simp add: app1_def)
    have ar: "min (cursor d + Suc j) (length (dict_keys d)) - cursor d
                = Suc (min (Suc (cursor d) + j) (length (dict_keys d)) - Suc (cursor d))"
      using True by (auto simp: min_def)
    show ?thesis
      using st r dj kj k1 ar by (simp del: step.simps)
  next
    case False
    have st: "step lib (Session MfClassicPollerEventTypeRequestKey) app = Some app"
      using request_key_exhausted[OF Suc.prems(1) False, of lib] by simp
    from Suc.IH[OF Suc.prems] obtain app_j where
      r: "run lib (replicate j (Session MfClassicPollerEventTypeRequestKey)) app = Some app_j"
      and dj: "dict (nfc_dict_context app_j) =
                 Some (d\<lparr>cursor := min (cursor d + j) (length (dict_keys d))\<rparr>)"
      and kj: "dict_keys_current (nfc_dict_context app_j) =
                 dict_keys_current (nfc_dict_context app) +
                 of_nat (min (cursor d + j) (length (dict_keys d)) - cursor d)"
      by auto
    show ?thesis
      using st r dj kj False Suc.prems(2) by (simp add: min_def del: step.simps)
  qed
qed

text \<open>
  C1. Against a dictionary of \<open>N\<close> candidates whose cursor is at the start (it was just
  opened or rewound), consider the state after \<open>j\<close> \<^verbatim>\<open>RequestKey\<close> events. The counter has
  then grown by \<open>min j N\<close>. If \<open>j < N\<close>, the next \<^verbatim>\<open>RequestKey\<close> supplies candidate number
  \<open>j\<close> of the file with the validity flag set, adds exactly one to \<open>dict_keys_current\<close>,
  and notifies the observer exactly when the new value is a multiple of 10. Otherwise it
  reports that no key is available and changes nothing.
\<close>

theorem request_key_supplies_candidates_in_file_order:
  assumes "dict (nfc_dict_context app) = Some d" and "cursor d = 0"
  shows "\<exists>app_j.
     run lib (replicate j (Session MfClassicPollerEventTypeRequestKey)) app = Some app_j \<and>
     dict_keys_current (nfc_dict_context app_j) =
       dict_keys_current (nfc_dict_context app) + of_nat (min j (length (dict_keys d))) \<and>
     (if j < length (dict_keys d)
      then \<exists>app'.
             nfc_dict_attack_worker_callback lib MfClassicPollerEventTypeRequestKey app_j =
               Some (NfcCommandContinue, KeyProvided (dict_keys d ! j), app') \<and>
             dict_keys_current (nfc_dict_context app') =
               dict_keys_current (nfc_dict_context app_j) + 1 \<and>
             new_calls app_j app' =
               (if dict_keys_current (nfc_dict_context app') mod 10 = 0
                then [ViewDispatcherSendCustomEvent NfcCustomEventDictAttackDataUpdate]
                else [])
      else nfc_dict_attack_worker_callback lib MfClassicPollerEventTypeRequestKey app_j =
             Some (NfcCommandContinue, KeyNotProvided, app_j))"
proof -
  have le: "cursor d \<le> length (dict_keys d)"
    using assms(2) by simp
  from run_request_keys[OF assms(1) le, of lib j] obtain app_j where
    r: "run lib (replicate j (Session MfClassicPollerEventTypeRequestKey)) app = Some app_j"
    and dj: "dict (nfc_dict_context app_j) = Some (d\<lparr>cursor := min j (length (dict_keys d))\<rparr>)"
    and kj: "dict_keys_current (nfc_dict_context app_j) =
               dict_keys_current (nfc_dict_context app) + of_nat (min j (length (dict_keys d)))"
    using assms(2) by auto
  show ?thesis
  proof (cases "j < length (dict_keys d)")
    case True
    have lt: "cursor (d\<lparr>cursor := min j (length (dict_keys d))\<rparr>)
                < length (dict_keys (d\<lparr>cursor := min j (length (dict_keys d))\<rparr>))"
      using True by simp
    show ?thesis
      using r kj True request_key_provided[OF dj lt, of lib]
      by (simp add: new_calls_def del: nfc_dict_attack_worker_callback.simps)
  next
    case False
    have ge: "\<not> cursor (d\<lparr>cursor := min j (length (dict_keys d))\<rparr>)
                < length (dict_keys (d\<lparr>cursor := min j (length (dict_keys d))\<rparr>))"
      using False by simp
    show ?thesis
      using r kj False request_key_exhausted[OF dj ge, of lib]
      by (simp del: nfc_dict_attack_worker_callback.simps)
  qed
qed

theorem request_key_supplies_candidates_in_file_order_witness:
  "dict (nfc_dict_context app_open3) = Some (keys_dict_open [K1, K2, K3]) \<and>
   cursor (keys_dict_open [K1, K2, K3]) = 0 \<and>
   (\<exists>app_j. run lib0 (replicate 1 (Session MfClassicPollerEventTypeRequestKey)) app_open3 = Some app_j \<and>
      dict_keys_current (nfc_dict_context app_j) = 1 \<and>
      (\<exists>app'. nfc_dict_attack_worker_callback lib0 MfClassicPollerEventTypeRequestKey app_j =
                 Some (NfcCommandContinue, KeyProvided K2, app') \<and>
               dict_keys_current (nfc_dict_context app') = 2 \<and> new_calls app_j app' = [])) \<and>
   (\<exists>app_j. run lib0 (replicate 3 (Session MfClassicPollerEventTypeRequestKey)) app_open3 = Some app_j \<and>
      dict_keys_current (nfc_dict_context app_j) = 3 \<and>
      nfc_dict_attack_worker_callback lib0 MfClassicPollerEventTypeRequestKey app_j =
        Some (NfcCommandContinue, KeyNotProvided, app_j)) \<and>
   dict (nfc_dict_context app_open10) = Some (keys_dict_open (replicate 10 K1)) \<and>
   (\<exists>app_j. run lib0 (replicate 9 (Session MfClassicPollerEventTypeRequestKey)) app_open10 = Some app_j \<and>
      dict_keys_current (nfc_dict_context app_j) = 9 \<and>
      (\<exists>app'. nfc_dict_attack_worker_callback lib0 MfClassicPollerEventTypeRequestKey app_j =
                 Some (NfcCommandContinue, KeyProvided K1, app') \<and>
               dict_keys_current (nfc_dict_context app') = 10 \<and>
               new_calls app_j app' =
                 [ViewDispatcherSendCustomEvent NfcCustomEventDictAttackDataUpdate]))"
proof -
  have d: "dict (nfc_dict_context app_open3) = Some (keys_dict_open [K1, K2, K3])"
    by (simp add: app_open3_def app0_def ctx0_def)
  have c: "cursor (keys_dict_open [K1, K2, K3]) = 0"
    by (simp add: keys_dict_open_def)
  have k: "dict_keys_current (nfc_dict_context app_open3) = 0"
    by (simp add: app_open3_def app0_def ctx0_def)
  have n: "dict_keys (keys_dict_open [K1, K2, K3]) = [K1, K2, K3]"
    by (simp add: keys_dict_open_def)
  have d10: "dict (nfc_dict_context app_open10) = Some (keys_dict_open (replicate 10 K1))"
    by (simp add: app_open10_def app0_def ctx0_def)
  have c10: "cursor (keys_dict_open (replicate 10 K1)) = 0"
    by (simp add: keys_dict_open_def)
  have k10: "dict_keys_current (nfc_dict_context app_open10) = 0"
    by (simp add: app_open10_def app0_def ctx0_def)
  have n10: "length (dict_keys (keys_dict_open (replicate 10 K1))) = 10"
    "dict_keys (keys_dict_open (replicate 10 K1)) ! 9 = K1"
    by (simp_all add: keys_dict_open_def)
  have three: "(\<exists>app_j. run lib0 (replicate 1 (Session MfClassicPollerEventTypeRequestKey)) app_open3 = Some app_j \<and>
      dict_keys_current (nfc_dict_context app_j) = 1 \<and>
      (\<exists>app'. nfc_dict_attack_worker_callback lib0 MfClassicPollerEventTypeRequestKey app_j =
                 Some (NfcCommandContinue, KeyProvided K2, app') \<and>
               dict_keys_current (nfc_dict_context app') = 2 \<and> new_calls app_j app' = [])) \<and>
   (\<exists>app_j. run lib0 (replicate 3 (Session MfClassicPollerEventTypeRequestKey)) app_open3 = Some app_j \<and>
      dict_keys_current (nfc_dict_context app_j) = 3 \<and>
      nfc_dict_attack_worker_callback lib0 MfClassicPollerEventTypeRequestKey app_j =
        Some (NfcCommandContinue, KeyNotProvided, app_j))"
    using request_key_supplies_candidates_in_file_order[OF d c, of lib0 1]
      request_key_supplies_candidates_in_file_order[OF d c, of lib0 3]
    by (auto simp add: k n
          simp del: nfc_dict_attack_worker_callback.simps run.simps replicate.simps)
  have ten: "\<exists>app_j. run lib0 (replicate 9 (Session MfClassicPollerEventTypeRequestKey)) app_open10 = Some app_j \<and>
      dict_keys_current (nfc_dict_context app_j) = 9 \<and>
      (\<exists>app'. nfc_dict_attack_worker_callback lib0 MfClassicPollerEventTypeRequestKey app_j =
                 Some (NfcCommandContinue, KeyProvided K1, app') \<and>
               dict_keys_current (nfc_dict_context app') = 10 \<and>
               new_calls app_j app' =
                 [ViewDispatcherSendCustomEvent NfcCustomEventDictAttackDataUpdate])"
    using request_key_supplies_candidates_in_file_order[OF d10 c10, of lib0 9]
    by (auto simp add: k10 n10
          simp del: nfc_dict_attack_worker_callback.simps run.simps replicate.simps)
  show ?thesis
    using d c d10 three ten by blast
qed

subsection \<open>Entering the scene\<close>

lemma on_enter_after_prepare:
  assumes "nfc_scene_mf_classic_dict_attack_prepare_view
             (scene_manager_set_scene_state DictAttackStateUserDictInProgress app) = Some a2"
  shows "\<exists>app'. nfc_scene_mf_classic_dict_attack_on_enter lib app = Some app' \<and>
     scene_state app' = scene_state a2 \<and> nfc_dict_context app' = nfc_dict_context a2 \<and>
     nfc_device app' = nfc_device a2 \<and> storage app' = storage a2 \<and>
     poller app' = Some \<lparr>poller_data = poller_fresh_data lib, poller_started = True\<rparr> \<and>
     calls app' = calls a2 @ [DictAttackSetCardState True, ViewDispatcherSwitchToViewDictAttack,
                              NfcBlinkReadStart, NfcPollerAlloc, NfcPollerStart]"
  using assms
  by (simp add: nfc_scene_mf_classic_dict_attack_on_enter_def emit_def nfc_poller_alloc_def nfc_poller_start_def)

lemma on_enter_failed_prepare:
  assumes "nfc_scene_mf_classic_dict_attack_prepare_view
             (scene_manager_set_scene_state DictAttackStateUserDictInProgress app) = None"
  shows "nfc_scene_mf_classic_dict_attack_on_enter lib app = None"
  using assms
  by (simp add: nfc_scene_mf_classic_dict_attack_on_enter_def)

lemma set_scene_state_sel [simp]:
  "scene_state (scene_manager_set_scene_state s app) = s"
  "nfc_dict_context (scene_manager_set_scene_state s app) = nfc_dict_context app"
  "nfc_device (scene_manager_set_scene_state s app) = nfc_device app"
  "poller (scene_manager_set_scene_state s app) = poller app"
  "storage (scene_manager_set_scene_state s app) = storage app"
  "calls (scene_manager_set_scene_state s app) = calls app @ [SceneManagerSetSceneState s]"
  by (simp_all add: scene_manager_set_scene_state_def emit_def)

text \<open>
  C5. When the user dictionary file is absent, or is there with a total key count of zero,
  and the system dictionary is there, entering the scene succeeds (this is no error path)
  and ends in the system phase with the system dictionary open and its counters set. A
  user dictionary that was opened is released before the system dictionary is opened, and
  the session is started last: the first \<^verbatim>\<open>RequestKey\<close> is answered from the system
  dictionary, none is ever answered from the user dictionary.
\<close>

theorem absent_or_empty_user_dict_enters_system_phase:
  assumes "user_dict_absent_or_empty (storage app)"
    and "storage app NFC_APP_MF_CLASSIC_DICT_SYSTEM_PATH = Some ks"
  shows "\<exists>app'. nfc_scene_mf_classic_dict_attack_on_enter lib app = Some app' \<and>
     scene_state app' = DictAttackStateSystemDictInProgress \<and>
     dict (nfc_dict_context app') = Some (keys_dict_open ks) \<and>
     dict_keys_total (nfc_dict_context app') = of_nat (length ks) \<and>
     dict_keys_current (nfc_dict_context app') = 0 \<and>
     poller app' = Some \<lparr>poller_data = poller_fresh_data lib, poller_started = True\<rparr> \<and>
     filter is_handle_call (new_calls app app') =
       (case storage app NFC_APP_MF_CLASSIC_DICT_USER_PATH of
          None \<Rightarrow> []
        | Some uks \<Rightarrow> [KeysDictAlloc NFC_APP_MF_CLASSIC_DICT_USER_PATH KeysDictModeOpenAlways,
                       KeysDictFree]) @
       [KeysDictAlloc NFC_APP_MF_CLASSIC_DICT_SYSTEM_PATH KeysDictModeOpenExisting,
        NfcPollerAlloc, NfcPollerStart] \<and>
     (\<exists>app''. nfc_dict_attack_worker_callback lib MfClassicPollerEventTypeRequestKey app' =
        Some (NfcCommandContinue,
              (case ks of [] \<Rightarrow> KeyNotProvided | k # _ \<Rightarrow> KeyProvided k), app''))"
proof -
  let ?a1 = "scene_manager_set_scene_state DictAttackStateUserDictInProgress app"
  have s1: "scene_state ?a1 = DictAttackStateUserDictInProgress"
    and sys1: "storage ?a1 NFC_APP_MF_CLASSIC_DICT_SYSTEM_PATH = Some ks"
    using assms(2) by simp_all
  have "\<exists>a2. nfc_scene_mf_classic_dict_attack_prepare_view ?a1 = Some a2 \<and>
     scene_state a2 = DictAttackStateSystemDictInProgress \<and>
     nfc_dict_context a2 = (nfc_dict_context app)\<lparr>dict := Some (keys_dict_open ks),
        dict_keys_total := of_nat (length ks), dict_keys_current := 0\<rparr> \<and>
     filter is_handle_call (drop (length (calls app)) (calls a2)) =
       (case storage app NFC_APP_MF_CLASSIC_DICT_USER_PATH of
          None \<Rightarrow> []
        | Some uks \<Rightarrow> [KeysDictAlloc NFC_APP_MF_CLASSIC_DICT_USER_PATH KeysDictModeOpenAlways,
                       KeysDictFree]) @
       [KeysDictAlloc NFC_APP_MF_CLASSIC_DICT_SYSTEM_PATH KeysDictModeOpenExisting] \<and>
     length (calls app) \<le> length (calls a2)"
  proof (cases "storage app NFC_APP_MF_CLASSIC_DICT_USER_PATH")
    case None
    then have u1: "storage ?a1 NFC_APP_MF_CLASSIC_DICT_USER_PATH = None" by simp
    from prepare_view_user_absent[OF s1 u1 sys1] show ?thesis
      using None by auto
  next
    case (Some uks)
    then have u1: "storage ?a1 NFC_APP_MF_CLASSIC_DICT_USER_PATH = Some uks" by simp
    have z: "(of_nat (length uks) :: 32 word) = 0"
      using assms(1) Some
      by (simp add: user_dict_absent_or_empty_def keys_dict_get_total_keys_def keys_dict_open_def)
    from prepare_view_user_empty[OF s1 u1 z sys1] show ?thesis
      using Some by auto
  qed
  then obtain a2 where
    p: "nfc_scene_mf_classic_dict_attack_prepare_view ?a1 = Some a2"
    and s2: "scene_state a2 = DictAttackStateSystemDictInProgress"
    and c2: "nfc_dict_context a2 = (nfc_dict_context app)\<lparr>dict := Some (keys_dict_open ks),
        dict_keys_total := of_nat (length ks), dict_keys_current := 0\<rparr>"
    and h2: "filter is_handle_call (drop (length (calls app)) (calls a2)) =
       (case storage app NFC_APP_MF_CLASSIC_DICT_USER_PATH of
          None \<Rightarrow> []
        | Some uks \<Rightarrow> [KeysDictAlloc NFC_APP_MF_CLASSIC_DICT_USER_PATH KeysDictModeOpenAlways,
                       KeysDictFree]) @
       [KeysDictAlloc NFC_APP_MF_CLASSIC_DICT_SYSTEM_PATH KeysDictModeOpenExisting]"
    and l2: "length (calls app) \<le> length (calls a2)"
    by blast
  from on_enter_after_prepare[OF p, of lib] obtain app' where
    e: "nfc_scene_mf_classic_dict_attack_on_enter lib app = Some app'"
    and s3: "scene_state app' = scene_state a2"
    and c3: "nfc_dict_context app' = nfc_dict_context a2"
    and p3: "poller app' = Some \<lparr>poller_data = poller_fresh_data lib, poller_started = True\<rparr>"
    and k3: "calls app' = calls a2 @ [DictAttackSetCardState True, ViewDispatcherSwitchToViewDictAttack,
                              NfcBlinkReadStart, NfcPollerAlloc, NfcPollerStart]"
    by blast
  have d3: "dict (nfc_dict_context app') = Some (keys_dict_open ks)"
    using c3 c2 by simp
  have rk: "\<exists>app''. nfc_dict_attack_worker_callback lib MfClassicPollerEventTypeRequestKey app' =
        Some (NfcCommandContinue,
              (case ks of [] \<Rightarrow> KeyNotProvided | k # _ \<Rightarrow> KeyProvided k), app'')"
  proof (cases ks)
    case Nil
    then have "\<not> cursor (keys_dict_open ks) < length (dict_keys (keys_dict_open ks))"
      by (simp add: keys_dict_open_def)
    from request_key_exhausted[OF d3 this, of lib] show ?thesis
      using Nil by (simp del: nfc_dict_attack_worker_callback.simps)
  next
    case (Cons k ks')
    then have "cursor (keys_dict_open ks) < length (dict_keys (keys_dict_open ks))"
      by (simp add: keys_dict_open_def)
    from request_key_provided[OF d3 this, of lib] show ?thesis
      using Cons by (simp add: keys_dict_open_def del: nfc_dict_attack_worker_callback.simps)
  qed
  have hc: "filter is_handle_call (new_calls app app') =
       (case storage app NFC_APP_MF_CLASSIC_DICT_USER_PATH of
          None \<Rightarrow> []
        | Some uks \<Rightarrow> [KeysDictAlloc NFC_APP_MF_CLASSIC_DICT_USER_PATH KeysDictModeOpenAlways,
                       KeysDictFree]) @
       [KeysDictAlloc NFC_APP_MF_CLASSIC_DICT_SYSTEM_PATH KeysDictModeOpenExisting,
        NfcPollerAlloc, NfcPollerStart]"
    using h2 l2 by (simp add: new_calls_def k3)
  show ?thesis
    using e s3 s2 d3 c3 c2 p3 hc rk by (simp del: nfc_dict_attack_worker_callback.simps)
qed


theorem absent_or_empty_user_dict_enters_system_phase_witness:
  "user_dict_absent_or_empty (storage app_no_user) \<and>
   storage app_no_user NFC_APP_MF_CLASSIC_DICT_SYSTEM_PATH = Some [K1, K2, K3] \<and>
   (\<exists>app'. nfc_scene_mf_classic_dict_attack_on_enter lib0 app_no_user = Some app' \<and>
      scene_state app' = DictAttackStateSystemDictInProgress \<and>
      dict_keys_total (nfc_dict_context app') = 3 \<and>
      filter is_handle_call (new_calls app_no_user app') =
        [KeysDictAlloc NFC_APP_MF_CLASSIC_DICT_SYSTEM_PATH KeysDictModeOpenExisting,
         NfcPollerAlloc, NfcPollerStart] \<and>
      (\<exists>app''. nfc_dict_attack_worker_callback lib0 MfClassicPollerEventTypeRequestKey app' =
         Some (NfcCommandContinue, KeyProvided K1, app''))) \<and>
   user_dict_absent_or_empty (storage app_empty_user) \<and>
   storage app_empty_user NFC_APP_MF_CLASSIC_DICT_SYSTEM_PATH = Some [K1, K2, K3] \<and>
   (\<exists>app'. nfc_scene_mf_classic_dict_attack_on_enter lib0 app_empty_user = Some app' \<and>
      scene_state app' = DictAttackStateSystemDictInProgress \<and>
      dict_keys_total (nfc_dict_context app') = 3 \<and>
      filter is_handle_call (new_calls app_empty_user app') =
        [KeysDictAlloc NFC_APP_MF_CLASSIC_DICT_USER_PATH KeysDictModeOpenAlways, KeysDictFree,
         KeysDictAlloc NFC_APP_MF_CLASSIC_DICT_SYSTEM_PATH KeysDictModeOpenExisting,
         NfcPollerAlloc, NfcPollerStart] \<and>
      (\<exists>app''. nfc_dict_attack_worker_callback lib0 MfClassicPollerEventTypeRequestKey app' =
         Some (NfcCommandContinue, KeyProvided K1, app'')))"
proof -
  have a1: "user_dict_absent_or_empty (storage app_no_user)"
    by (simp add: user_dict_absent_or_empty_def app_no_user_def app0_def)
  have a2: "storage app_no_user NFC_APP_MF_CLASSIC_DICT_SYSTEM_PATH = Some [K1, K2, K3]"
    by (simp add: app_no_user_def app0_def)
  have a3: "storage app_no_user NFC_APP_MF_CLASSIC_DICT_USER_PATH = None"
    by (simp add: app_no_user_def app0_def)
  have b1: "user_dict_absent_or_empty (storage app_empty_user)"
    by (simp add: user_dict_absent_or_empty_def app_empty_user_def app0_def
          keys_dict_get_total_keys_def keys_dict_open_def)
  have b2: "storage app_empty_user NFC_APP_MF_CLASSIC_DICT_SYSTEM_PATH = Some [K1, K2, K3]"
    by (simp add: app_empty_user_def app0_def)
  have b3: "storage app_empty_user NFC_APP_MF_CLASSIC_DICT_USER_PATH = Some []"
    by (simp add: app_empty_user_def app0_def)
  show ?thesis
    using a1 a2 b1 b2
      absent_or_empty_user_dict_enters_system_phase[OF a1 a2, of lib0]
      absent_or_empty_user_dict_enters_system_phase[OF b1 b2, of lib0]
    by (auto simp add: a3 b3 simp del: nfc_dict_attack_worker_callback.simps)
qed

subsection \<open>Events of the scene\<close>

lemma prepare_view_system_eq:
  assumes "scene_state app = DictAttackStateSystemDictInProgress"
    and "storage app NFC_APP_MF_CLASSIC_DICT_SYSTEM_PATH = Some ks"
  shows "nfc_scene_mf_classic_dict_attack_prepare_view app =
     Some (calls_update (\<lambda>cs. cs @
       [StorageCommonRemove NFC_APP_MF_CLASSIC_DICT_SYSTEM_NESTED_PATH,
        StorageCommonCopy NFC_APP_MF_CLASSIC_DICT_SYSTEM_PATH NFC_APP_MF_CLASSIC_DICT_SYSTEM_NESTED_PATH,
        KeysDictAlloc NFC_APP_MF_CLASSIC_DICT_SYSTEM_PATH KeysDictModeOpenExisting,
        DictAttackSetHeader ''MF Classic System Dictionary'',
        DictAttackSetTotalDictKeys (of_nat (length ks)),
        DictAttackSetCallback] @
       update_view_calls ((nfc_dict_context app)\<lparr>dict := Some (keys_dict_open ks),
        dict_keys_total := of_nat (length ks), dict_keys_current := 0\<rparr>) @
       [SceneManagerSetSceneState DictAttackStateSystemDictInProgress])
      (nfc_dict_context_update (\<lambda>c. c\<lparr>dict := Some (keys_dict_open ks),
          dict_keys_total := of_nat (length ks), dict_keys_current := 0\<rparr>)
        (storage_update (\<lambda>st. st(NFC_APP_MF_CLASSIC_DICT_SYSTEM_NESTED_PATH \<mapsto> ks))
          (scene_state_update (\<lambda>_. DictAttackStateSystemDictInProgress) app))))"
  using assms by (simp add: prepare_view_defs)

lemma on_event_complete_user:
  assumes "scene_state app = DictAttackStateUserDictInProgress"
    and "poller app = Some p" and "dict (nfc_dict_context app) = Some d"
    and "storage app NFC_APP_MF_CLASSIC_DICT_SYSTEM_PATH = Some ks"
  shows "\<exists>app'. nfc_scene_mf_classic_dict_attack_on_event lib app
            (SceneManagerEventTypeCustom NfcCustomEventDictAttackComplete) = Some (True, app') \<and>
     scene_state app' = DictAttackStateSystemDictInProgress \<and>
     poller app' = Some \<lparr>poller_data = poller_fresh_data lib, poller_started = True\<rparr> \<and>
     nfc_device app' = nfc_device app \<and>
     storage app' = (storage app)(NFC_APP_MF_CLASSIC_DICT_SYSTEM_NESTED_PATH \<mapsto> ks) \<and>
     nfc_dict_context app' = (nfc_dict_context app)\<lparr>dict := Some (keys_dict_open ks),
        dict_keys_total := of_nat (length ks), dict_keys_current := 0\<rparr> \<and>
     calls app' = calls app @
       [NfcPollerStop, NfcPollerFree, KeysDictFree,
        SceneManagerSetSceneState DictAttackStateSystemDictInProgress,
        StorageCommonRemove NFC_APP_MF_CLASSIC_DICT_SYSTEM_NESTED_PATH,
        StorageCommonCopy NFC_APP_MF_CLASSIC_DICT_SYSTEM_PATH NFC_APP_MF_CLASSIC_DICT_SYSTEM_NESTED_PATH,
        KeysDictAlloc NFC_APP_MF_CLASSIC_DICT_SYSTEM_PATH KeysDictModeOpenExisting,
        DictAttackSetHeader ''MF Classic System Dictionary'',
        DictAttackSetTotalDictKeys (of_nat (length ks)),
        DictAttackSetCallback] @
       update_view_calls ((nfc_dict_context app)\<lparr>dict := Some (keys_dict_open ks),
        dict_keys_total := of_nat (length ks), dict_keys_current := 0\<rparr>) @
       [SceneManagerSetSceneState DictAttackStateSystemDictInProgress,
        NfcPollerAlloc, NfcPollerStart]"
  using assms
  by (simp add: nfc_scene_mf_classic_dict_attack_on_event_def prepare_view_system_eq
        scene_manager_get_scene_state_def scene_manager_set_scene_state_def emit_def
        nfc_poller_alloc_def nfc_poller_start_def nfc_poller_stop_def nfc_poller_free_def
        keys_dict_free_def)


lemmas on_event_defs =
  nfc_scene_mf_classic_dict_attack_on_event_def nfc_scene_mf_classic_dict_attack_notify_read_def
  scene_manager_get_scene_state_def scene_manager_set_scene_state_def emit_def
  nfc_poller_alloc_def nfc_poller_start_def nfc_poller_stop_def nfc_poller_free_def
  nfc_poller_get_data_def nfc_device_set_data_def keys_dict_free_def

lemma on_event_complete_system:
  assumes "scene_state app = DictAttackStateSystemDictInProgress" and "poller app = Some p"
  shows "nfc_scene_mf_classic_dict_attack_on_event lib app
            (SceneManagerEventTypeCustom NfcCustomEventDictAttackComplete) =
     Some (True, calls_update (\<lambda>cs. cs @
       [NotificationMessage (if mf_classic_is_card_read lib (poller_data p)
                             then sequence_success else sequence_semi_success),
        SceneManagerNextScene NfcSceneReadSuccess, DolphinDeedNfcReadSuccess]) app)"
  using assms by (simp add: on_event_defs)

lemma on_event_skip_conclude:
  assumes "scene_state app = DictAttackStateSystemDictInProgress \<or>
           \<not> is_card_present (nfc_dict_context app)"
    and "poller app = Some p"
  shows "nfc_scene_mf_classic_dict_attack_on_event lib app
            (SceneManagerEventTypeCustom NfcCustomEventDictAttackSkip) =
     Some (True, calls_update (\<lambda>cs. cs @
       [NfcDeviceSetData (poller_data p),
        NotificationMessage (if mf_classic_is_card_read lib (poller_data p)
                             then sequence_success else sequence_semi_success),
        SceneManagerNextScene NfcSceneReadSuccess, DolphinDeedNfcReadSuccess])
       (nfc_device_update (\<lambda>_. poller_data p) app))"
  using assms by (cases "scene_state app") (auto simp add: on_event_defs)

lemma on_event_skip_as_complete:
  assumes "scene_state app = DictAttackStateUserDictInProgress"
    and "is_card_present (nfc_dict_context app)" and "poller app = Some p"
  shows "nfc_scene_mf_classic_dict_attack_on_event lib app
            (SceneManagerEventTypeCustom NfcCustomEventDictAttackSkip) =
         nfc_scene_mf_classic_dict_attack_on_event lib (nfc_device_set_data (poller_data p) app)
            (SceneManagerEventTypeCustom NfcCustomEventDictAttackComplete)"
  using assms
  by (simp add: nfc_scene_mf_classic_dict_attack_on_event_def nfc_poller_get_data_def
        scene_manager_get_scene_state_def nfc_device_set_data_def emit_def)

lemma set_data_sel [simp]:
  "scene_state (nfc_device_set_data x app) = scene_state app"
  "nfc_dict_context (nfc_device_set_data x app) = nfc_dict_context app"
  "nfc_device (nfc_device_set_data x app) = x"
  "poller (nfc_device_set_data x app) = poller app"
  "storage (nfc_device_set_data x app) = storage app"
  "calls (nfc_device_set_data x app) = calls app @ [NfcDeviceSetData x]"
  by (simp_all add: nfc_device_set_data_def emit_def)

lemma worker_success:
  assumes "poller app = Some p"
  shows "nfc_dict_attack_worker_callback lib MfClassicPollerEventTypeSuccess app =
     Some (NfcCommandStop, NoEventData,
           calls_update (\<lambda>cs. cs @ [NfcDeviceSetData (poller_data p),
                                      ViewDispatcherSendCustomEvent NfcCustomEventDictAttackComplete])
             (nfc_device_update (\<lambda>_. poller_data p) app))"
  using assms by (simp add: prim_defs)

text \<open>
  C2. The \<^verbatim>\<open>Success\<close> event of a live session persists the session's card data, signals
  \<^verbatim>\<open>NfcCustomEventDictAttackComplete\<close> and stops the poller's loop. In the user phase (with
  the system dictionary in place) the scene then does not conclude: it stops and frees the
  poller, frees the dictionary, sets the state to the system phase, runs the phase entry
  (which opens the system dictionary, sets \<open>dict_keys_total\<close> to its number of keys and
  \<open>dict_keys_current\<close> to 0), allocates a new poller and starts it, in this order. In the
  system phase it concludes: it notifies, goes to the read-success scene and leaves phase,
  context and poller as they are.
\<close>

theorem success_on_user_pass_restarts_with_system_dictionary:
  assumes "poller app = Some p"
  shows "\<exists>app1.
     nfc_dict_attack_worker_callback lib MfClassicPollerEventTypeSuccess app =
       Some (NfcCommandStop, NoEventData, app1) \<and>
     new_calls app app1 = [NfcDeviceSetData (poller_data p),
                           ViewDispatcherSendCustomEvent NfcCustomEventDictAttackComplete] \<and>
     (scene_state app = DictAttackStateUserDictInProgress \<and>
      dict (nfc_dict_context app) \<noteq> None \<and>
      storage app NFC_APP_MF_CLASSIC_DICT_SYSTEM_PATH = Some ks \<longrightarrow>
        (\<exists>app2. nfc_scene_mf_classic_dict_attack_on_event lib app1
                   (SceneManagerEventTypeCustom NfcCustomEventDictAttackComplete) = Some (True, app2) \<and>
           scene_state app2 = DictAttackStateSystemDictInProgress \<and>
           dict (nfc_dict_context app2) = Some (keys_dict_open ks) \<and>
           dict_keys_total (nfc_dict_context app2) = of_nat (length ks) \<and>
           dict_keys_current (nfc_dict_context app2) = 0 \<and>
           poller app2 = Some \<lparr>poller_data = poller_fresh_data lib, poller_started = True\<rparr> \<and>
           filter (Not \<circ> is_view_call) (new_calls app1 app2) =
             [NfcPollerStop, NfcPollerFree, KeysDictFree,
              SceneManagerSetSceneState DictAttackStateSystemDictInProgress,
              StorageCommonRemove NFC_APP_MF_CLASSIC_DICT_SYSTEM_NESTED_PATH,
              StorageCommonCopy NFC_APP_MF_CLASSIC_DICT_SYSTEM_PATH
                NFC_APP_MF_CLASSIC_DICT_SYSTEM_NESTED_PATH,
              KeysDictAlloc NFC_APP_MF_CLASSIC_DICT_SYSTEM_PATH KeysDictModeOpenExisting,
              SceneManagerSetSceneState DictAttackStateSystemDictInProgress,
              NfcPollerAlloc, NfcPollerStart])) \<and>
     (scene_state app = DictAttackStateSystemDictInProgress \<longrightarrow>
        (\<exists>app2. nfc_scene_mf_classic_dict_attack_on_event lib app1
                   (SceneManagerEventTypeCustom NfcCustomEventDictAttackComplete) = Some (True, app2) \<and>
           scene_state app2 = DictAttackStateSystemDictInProgress \<and>
           nfc_dict_context app2 = nfc_dict_context app \<and>
           poller app2 = poller app \<and>
           new_calls app1 app2 =
             [NotificationMessage (if mf_classic_is_card_read lib (poller_data p)
                                   then sequence_success else sequence_semi_success),
              SceneManagerNextScene NfcSceneReadSuccess, DolphinDeedNfcReadSuccess]))"
proof -
  define app1 where "app1 =
    calls_update (\<lambda>cs. cs @ [NfcDeviceSetData (poller_data p),
                               ViewDispatcherSendCustomEvent NfcCustomEventDictAttackComplete])
      (nfc_device_update (\<lambda>_. poller_data p) app)"
  have w: "nfc_dict_attack_worker_callback lib MfClassicPollerEventTypeSuccess app =
             Some (NfcCommandStop, NoEventData, app1)"
    using worker_success[OF assms, of lib] by (simp add: app1_def)
  have n1: "new_calls app app1 = [NfcDeviceSetData (poller_data p),
                           ViewDispatcherSendCustomEvent NfcCustomEventDictAttackComplete]"
    by (simp add: new_calls_def app1_def)
  have sel: "scene_state app1 = scene_state app" "poller app1 = Some p"
    "nfc_dict_context app1 = nfc_dict_context app" "storage app1 = storage app"
    using assms by (simp_all add: app1_def)
  have user: "\<exists>app2. nfc_scene_mf_classic_dict_attack_on_event lib app1
                   (SceneManagerEventTypeCustom NfcCustomEventDictAttackComplete) = Some (True, app2) \<and>
           scene_state app2 = DictAttackStateSystemDictInProgress \<and>
           dict (nfc_dict_context app2) = Some (keys_dict_open ks) \<and>
           dict_keys_total (nfc_dict_context app2) = of_nat (length ks) \<and>
           dict_keys_current (nfc_dict_context app2) = 0 \<and>
           poller app2 = Some \<lparr>poller_data = poller_fresh_data lib, poller_started = True\<rparr> \<and>
           filter (Not \<circ> is_view_call) (new_calls app1 app2) =
             [NfcPollerStop, NfcPollerFree, KeysDictFree,
              SceneManagerSetSceneState DictAttackStateSystemDictInProgress,
              StorageCommonRemove NFC_APP_MF_CLASSIC_DICT_SYSTEM_NESTED_PATH,
              StorageCommonCopy NFC_APP_MF_CLASSIC_DICT_SYSTEM_PATH
                NFC_APP_MF_CLASSIC_DICT_SYSTEM_NESTED_PATH,
              KeysDictAlloc NFC_APP_MF_CLASSIC_DICT_SYSTEM_PATH KeysDictModeOpenExisting,
              SceneManagerSetSceneState DictAttackStateSystemDictInProgress,
              NfcPollerAlloc, NfcPollerStart]"
    if u: "scene_state app = DictAttackStateUserDictInProgress"
      and d: "dict (nfc_dict_context app) \<noteq> None"
      and f: "storage app NFC_APP_MF_CLASSIC_DICT_SYSTEM_PATH = Some ks"
  proof -
    from d obtain dd where dd: "dict (nfc_dict_context app1) = Some dd"
      using sel(3) by auto
    have u1: "scene_state app1 = DictAttackStateUserDictInProgress" using u sel(1) by simp
    have f1: "storage app1 NFC_APP_MF_CLASSIC_DICT_SYSTEM_PATH = Some ks" using f sel(4) by simp
    from on_event_complete_user[OF u1 sel(2) dd f1, of lib] show ?thesis
      by (auto simp add: new_calls_def)
  qed
  have system: "\<exists>app2. nfc_scene_mf_classic_dict_attack_on_event lib app1
                   (SceneManagerEventTypeCustom NfcCustomEventDictAttackComplete) = Some (True, app2) \<and>
           scene_state app2 = DictAttackStateSystemDictInProgress \<and>
           nfc_dict_context app2 = nfc_dict_context app \<and>
           poller app2 = poller app \<and>
           new_calls app1 app2 =
             [NotificationMessage (if mf_classic_is_card_read lib (poller_data p)
                                   then sequence_success else sequence_semi_success),
              SceneManagerNextScene NfcSceneReadSuccess, DolphinDeedNfcReadSuccess]"
    if s: "scene_state app = DictAttackStateSystemDictInProgress"
  proof -
    have s1: "scene_state app1 = DictAttackStateSystemDictInProgress" using s sel(1) by simp
    from on_event_complete_system[OF s1 sel(2), of lib] show ?thesis
      using sel assms s by (simp add: new_calls_def)
  qed
  show ?thesis
    using w n1 user system by blast
qed

theorem success_on_user_pass_restarts_with_system_dictionary_witness:
  "poller app_user = Some \<lparr>poller_data = (3, 5), poller_started = True\<rparr> \<and>
   scene_state app_user = DictAttackStateUserDictInProgress \<and>
   dict (nfc_dict_context app_user) \<noteq> None \<and>
   storage app_user NFC_APP_MF_CLASSIC_DICT_SYSTEM_PATH = Some [K1, K2, K3] \<and>
   (\<exists>app1. nfc_dict_attack_worker_callback lib0 MfClassicPollerEventTypeSuccess app_user =
              Some (NfcCommandStop, NoEventData, app1) \<and>
      (\<exists>app2. nfc_scene_mf_classic_dict_attack_on_event lib0 app1
                 (SceneManagerEventTypeCustom NfcCustomEventDictAttackComplete) = Some (True, app2) \<and>
         scene_state app2 = DictAttackStateSystemDictInProgress \<and>
         dict_keys_total (nfc_dict_context app2) = 3 \<and>
         dict_keys_current (nfc_dict_context app2) = 0 \<and>
         poller app2 = Some \<lparr>poller_data = (0, 0), poller_started = True\<rparr>)) \<and>
   poller app_system = Some \<lparr>poller_data = (3, 5), poller_started = True\<rparr> \<and>
   scene_state app_system = DictAttackStateSystemDictInProgress \<and>
   (\<exists>app1. nfc_dict_attack_worker_callback lib0 MfClassicPollerEventTypeSuccess app_system =
              Some (NfcCommandStop, NoEventData, app1) \<and>
      (\<exists>app2. nfc_scene_mf_classic_dict_attack_on_event lib0 app1
                 (SceneManagerEventTypeCustom NfcCustomEventDictAttackComplete) = Some (True, app2) \<and>
         scene_state app2 = DictAttackStateSystemDictInProgress \<and>
         new_calls app1 app2 =
           [NotificationMessage sequence_semi_success,
            SceneManagerNextScene NfcSceneReadSuccess, DolphinDeedNfcReadSuccess]))"
proof -
  have u: "poller app_user = Some \<lparr>poller_data = (3, 5), poller_started = True\<rparr>"
    "scene_state app_user = DictAttackStateUserDictInProgress"
    "dict (nfc_dict_context app_user) \<noteq> None"
    "storage app_user NFC_APP_MF_CLASSIC_DICT_SYSTEM_PATH = Some [K1, K2, K3]"
    by (simp_all add: app_user_def app0_def ctx0_def)
  have s: "poller app_system = Some \<lparr>poller_data = (3, 5), poller_started = True\<rparr>"
    "scene_state app_system = DictAttackStateSystemDictInProgress"
    by (simp_all add: app_system_def app0_def ctx0_def)
  have l: "poller_fresh_data lib0 = (0, 0)" "\<not> mf_classic_is_card_read lib0 (3, 5)"
    by (simp_all add: lib0_def)
  show ?thesis
    using u s
      success_on_user_pass_restarts_with_system_dictionary[OF u(1), of lib0 "[K1, K2, K3]"]
      success_on_user_pass_restarts_with_system_dictionary[OF s(1), of lib0 "[K1, K2, K3]"]
    by (auto simp add: l simp del: nfc_dict_attack_worker_callback.simps)
qed

text \<open>
  C3. On \<^verbatim>\<open>NfcCustomEventDictAttackSkip\<close> with a live session: in the user phase with a card
  present (and the system dictionary in place), the scene does what it does on
  \<^verbatim>\<open>NfcCustomEventDictAttackComplete\<close> in the user phase, after persisting the card data: it
  ends in the system phase with the system dictionary open and a new session started, and
  does not go to the read-success scene. In the user phase with no card present, and in
  the system phase always, it concludes: it persists the card data, notifies and goes to
  the read-success scene; the phase, the context and the poller stay as they are, so no
  new session is started.
\<close>

theorem skip_advances_with_card_and_concludes_otherwise:
  assumes "poller app = Some p"
  shows
    "(scene_state app = DictAttackStateUserDictInProgress \<and>
      is_card_present (nfc_dict_context app) \<and> dict (nfc_dict_context app) \<noteq> None \<and>
      storage app NFC_APP_MF_CLASSIC_DICT_SYSTEM_PATH = Some ks \<longrightarrow>
        nfc_scene_mf_classic_dict_attack_on_event lib app
            (SceneManagerEventTypeCustom NfcCustomEventDictAttackSkip) =
          nfc_scene_mf_classic_dict_attack_on_event lib (nfc_device_set_data (poller_data p) app)
            (SceneManagerEventTypeCustom NfcCustomEventDictAttackComplete) \<and>
        (\<exists>app'. nfc_scene_mf_classic_dict_attack_on_event lib app
                   (SceneManagerEventTypeCustom NfcCustomEventDictAttackSkip) = Some (True, app') \<and>
           scene_state app' = DictAttackStateSystemDictInProgress \<and>
           dict (nfc_dict_context app') = Some (keys_dict_open ks) \<and>
           poller app' = Some \<lparr>poller_data = poller_fresh_data lib, poller_started = True\<rparr> \<and>
           SceneManagerNextScene NfcSceneReadSuccess \<notin> set (new_calls app app') \<and>
           filter is_handle_call (new_calls app app') =
             [NfcPollerStop, NfcPollerFree, KeysDictFree,
              KeysDictAlloc NFC_APP_MF_CLASSIC_DICT_SYSTEM_PATH KeysDictModeOpenExisting,
              NfcPollerAlloc, NfcPollerStart])) \<and>
     (scene_state app = DictAttackStateUserDictInProgress \<and>
      \<not> is_card_present (nfc_dict_context app) \<or>
      scene_state app = DictAttackStateSystemDictInProgress \<longrightarrow>
        (\<exists>app'. nfc_scene_mf_classic_dict_attack_on_event lib app
                   (SceneManagerEventTypeCustom NfcCustomEventDictAttackSkip) = Some (True, app') \<and>
           scene_state app' = scene_state app \<and>
           nfc_dict_context app' = nfc_dict_context app \<and>
           poller app' = poller app \<and>
           new_calls app app' =
             [NfcDeviceSetData (poller_data p),
              NotificationMessage (if mf_classic_is_card_read lib (poller_data p)
                                   then sequence_success else sequence_semi_success),
              SceneManagerNextScene NfcSceneReadSuccess, DolphinDeedNfcReadSuccess]))"
proof -
  have advance:
    "nfc_scene_mf_classic_dict_attack_on_event lib app
        (SceneManagerEventTypeCustom NfcCustomEventDictAttackSkip) =
      nfc_scene_mf_classic_dict_attack_on_event lib (nfc_device_set_data (poller_data p) app)
        (SceneManagerEventTypeCustom NfcCustomEventDictAttackComplete) \<and>
     (\<exists>app'. nfc_scene_mf_classic_dict_attack_on_event lib app
                (SceneManagerEventTypeCustom NfcCustomEventDictAttackSkip) = Some (True, app') \<and>
        scene_state app' = DictAttackStateSystemDictInProgress \<and>
        dict (nfc_dict_context app') = Some (keys_dict_open ks) \<and>
        poller app' = Some \<lparr>poller_data = poller_fresh_data lib, poller_started = True\<rparr> \<and>
        SceneManagerNextScene NfcSceneReadSuccess \<notin> set (new_calls app app') \<and>
        filter is_handle_call (new_calls app app') =
          [NfcPollerStop, NfcPollerFree, KeysDictFree,
           KeysDictAlloc NFC_APP_MF_CLASSIC_DICT_SYSTEM_PATH KeysDictModeOpenExisting,
           NfcPollerAlloc, NfcPollerStart])"
    if u: "scene_state app = DictAttackStateUserDictInProgress"
      and c: "is_card_present (nfc_dict_context app)"
      and d: "dict (nfc_dict_context app) \<noteq> None"
      and f: "storage app NFC_APP_MF_CLASSIC_DICT_SYSTEM_PATH = Some ks"
  proof -
    let ?a = "nfc_device_set_data (poller_data p) app"
    have eq: "nfc_scene_mf_classic_dict_attack_on_event lib app
        (SceneManagerEventTypeCustom NfcCustomEventDictAttackSkip) =
      nfc_scene_mf_classic_dict_attack_on_event lib ?a
        (SceneManagerEventTypeCustom NfcCustomEventDictAttackComplete)"
      by (rule on_event_skip_as_complete[OF u c assms])
    from d obtain dd where dd: "dict (nfc_dict_context ?a) = Some dd" by auto
    have u1: "scene_state ?a = DictAttackStateUserDictInProgress" using u by simp
    have p1: "poller ?a = Some p" using assms by simp
    have f1: "storage ?a NFC_APP_MF_CLASSIC_DICT_SYSTEM_PATH = Some ks" using f by simp
    have nv: "SceneManagerNextScene NfcSceneReadSuccess \<notin> set (update_view_calls x)" for x :: NfcMfClassicDictAttackContext
      by (simp add: update_view_calls_def)
    from on_event_complete_user[OF u1 p1 dd f1, of lib] show ?thesis
      unfolding eq by (auto simp add: new_calls_def nv)
  qed
  have conclude:
    "\<exists>app'. nfc_scene_mf_classic_dict_attack_on_event lib app
                (SceneManagerEventTypeCustom NfcCustomEventDictAttackSkip) = Some (True, app') \<and>
        scene_state app' = scene_state app \<and>
        nfc_dict_context app' = nfc_dict_context app \<and>
        poller app' = poller app \<and>
        new_calls app app' =
          [NfcDeviceSetData (poller_data p),
           NotificationMessage (if mf_classic_is_card_read lib (poller_data p)
                                then sequence_success else sequence_semi_success),
           SceneManagerNextScene NfcSceneReadSuccess, DolphinDeedNfcReadSuccess]"
    if c: "scene_state app = DictAttackStateSystemDictInProgress \<or>
           \<not> is_card_present (nfc_dict_context app)"
    using on_event_skip_conclude[OF c assms, of lib] by (simp add: new_calls_def)
  show ?thesis
    using advance conclude by blast
qed

theorem skip_advances_with_card_and_concludes_otherwise_witness:
  "poller app_user = Some \<lparr>poller_data = (3, 5), poller_started = True\<rparr> \<and>
   scene_state app_user = DictAttackStateUserDictInProgress \<and>
   is_card_present (nfc_dict_context app_user) \<and>
   dict (nfc_dict_context app_user) \<noteq> None \<and>
   storage app_user NFC_APP_MF_CLASSIC_DICT_SYSTEM_PATH = Some [K1, K2, K3] \<and>
   (\<exists>app'. nfc_scene_mf_classic_dict_attack_on_event lib0 app_user
              (SceneManagerEventTypeCustom NfcCustomEventDictAttackSkip) = Some (True, app') \<and>
      scene_state app' = DictAttackStateSystemDictInProgress \<and>
      poller app' = Some \<lparr>poller_data = (0, 0), poller_started = True\<rparr>) \<and>
   poller app_user_away = Some \<lparr>poller_data = (3, 5), poller_started = True\<rparr> \<and>
   scene_state app_user_away = DictAttackStateUserDictInProgress \<and>
   \<not> is_card_present (nfc_dict_context app_user_away) \<and>
   (\<exists>app'. nfc_scene_mf_classic_dict_attack_on_event lib0 app_user_away
              (SceneManagerEventTypeCustom NfcCustomEventDictAttackSkip) = Some (True, app') \<and>
      scene_state app' = DictAttackStateUserDictInProgress \<and>
      poller app' = poller app_user_away \<and>
      new_calls app_user_away app' =
        [NfcDeviceSetData (3, 5), NotificationMessage sequence_semi_success,
         SceneManagerNextScene NfcSceneReadSuccess, DolphinDeedNfcReadSuccess]) \<and>
   poller app_system = Some \<lparr>poller_data = (3, 5), poller_started = True\<rparr> \<and>
   scene_state app_system = DictAttackStateSystemDictInProgress \<and>
   (\<exists>app'. nfc_scene_mf_classic_dict_attack_on_event lib0 app_system
              (SceneManagerEventTypeCustom NfcCustomEventDictAttackSkip) = Some (True, app') \<and>
      scene_state app' = DictAttackStateSystemDictInProgress \<and>
      poller app' = poller app_system \<and>
      new_calls app_system app' =
        [NfcDeviceSetData (3, 5), NotificationMessage sequence_semi_success,
         SceneManagerNextScene NfcSceneReadSuccess, DolphinDeedNfcReadSuccess])"
proof -
  have u: "poller app_user = Some \<lparr>poller_data = (3, 5), poller_started = True\<rparr>"
    "scene_state app_user = DictAttackStateUserDictInProgress"
    "is_card_present (nfc_dict_context app_user)"
    "dict (nfc_dict_context app_user) \<noteq> None"
    "storage app_user NFC_APP_MF_CLASSIC_DICT_SYSTEM_PATH = Some [K1, K2, K3]"
    by (simp_all add: app_user_def app0_def ctx0_def)
  have a: "poller app_user_away = Some \<lparr>poller_data = (3, 5), poller_started = True\<rparr>"
    "scene_state app_user_away = DictAttackStateUserDictInProgress"
    "\<not> is_card_present (nfc_dict_context app_user_away)"
    by (simp_all add: app_user_away_def app_user_def app0_def ctx0_def)
  have s: "poller app_system = Some \<lparr>poller_data = (3, 5), poller_started = True\<rparr>"
    "scene_state app_system = DictAttackStateSystemDictInProgress"
    by (simp_all add: app_system_def app0_def ctx0_def)
  have l: "poller_fresh_data lib0 = (0, 0)" "\<not> mf_classic_is_card_read lib0 (3, 5)"
    by (simp_all add: lib0_def)
  note tu = skip_advances_with_card_and_concludes_otherwise[OF u(1), of "[K1, K2, K3]" lib0]
  from conjunct1[OF tu] u have
    "nfc_scene_mf_classic_dict_attack_on_event lib0 app_user
        (SceneManagerEventTypeCustom NfcCustomEventDictAttackSkip) =
      nfc_scene_mf_classic_dict_attack_on_event lib0
        (nfc_device_set_data (poller_data \<lparr>poller_data = (3, 5), poller_started = True\<rparr>) app_user)
        (SceneManagerEventTypeCustom NfcCustomEventDictAttackComplete) \<and>
     (\<exists>app'. nfc_scene_mf_classic_dict_attack_on_event lib0 app_user
                (SceneManagerEventTypeCustom NfcCustomEventDictAttackSkip) = Some (True, app') \<and>
        scene_state app' = DictAttackStateSystemDictInProgress \<and>
        dict (nfc_dict_context app') = Some (keys_dict_open [K1, K2, K3]) \<and>
        poller app' = Some \<lparr>poller_data = poller_fresh_data lib0, poller_started = True\<rparr> \<and>
        SceneManagerNextScene NfcSceneReadSuccess \<notin> set (new_calls app_user app') \<and>
        filter is_handle_call (new_calls app_user app') =
          [NfcPollerStop, NfcPollerFree, KeysDictFree,
           KeysDictAlloc NFC_APP_MF_CLASSIC_DICT_SYSTEM_PATH KeysDictModeOpenExisting,
           NfcPollerAlloc, NfcPollerStart])"
    by blast
  from conjunct2[OF this] have pu:
    "\<exists>app'. nfc_scene_mf_classic_dict_attack_on_event lib0 app_user
              (SceneManagerEventTypeCustom NfcCustomEventDictAttackSkip) = Some (True, app') \<and>
      scene_state app' = DictAttackStateSystemDictInProgress \<and>
      poller app' = Some \<lparr>poller_data = (0, 0), poller_started = True\<rparr>"
    by (auto simp add: l)
  show ?thesis
    using u a s pu
      skip_advances_with_card_and_concludes_otherwise[OF a(1), of "[K1, K2, K3]" lib0]
      skip_advances_with_card_and_concludes_otherwise[OF s(1), of "[K1, K2, K3]" lib0]
    by (auto simp add: l)
qed

text \<open>
  C10. On every \<^verbatim>\<open>NfcCustomEventDictAttackSkip\<close> with a live session, in either phase and
  with or without a card (in the user phase with a card: with a dictionary open and the
  system dictionary in place, so that the passage to the system phase succeeds), the first
  call the scene makes is \<^verbatim>\<open>nfc_device_set_data\<close> with the poller's card data; the device
  record then holds that data, and only afterwards does the scene go to the read-success
  scene or set the state to the system phase.
\<close>

theorem skip_persists_card_data_first:
  assumes "poller app = Some p"
    and "scene_state app = DictAttackStateUserDictInProgress \<and>
         is_card_present (nfc_dict_context app) \<longrightarrow>
           dict (nfc_dict_context app) \<noteq> None \<and>
           storage app NFC_APP_MF_CLASSIC_DICT_SYSTEM_PATH \<noteq> None"
  shows "\<exists>app' rest.
     nfc_scene_mf_classic_dict_attack_on_event lib app
       (SceneManagerEventTypeCustom NfcCustomEventDictAttackSkip) = Some (True, app') \<and>
     nfc_device app' = poller_data p \<and>
     new_calls app app' = NfcDeviceSetData (poller_data p) # rest \<and>
     (SceneManagerNextScene NfcSceneReadSuccess \<in> set rest \<or>
      SceneManagerSetSceneState DictAttackStateSystemDictInProgress \<in> set rest)"
proof (cases "scene_state app = DictAttackStateUserDictInProgress \<and>
              is_card_present (nfc_dict_context app)")
  case True
  let ?a = "nfc_device_set_data (poller_data p) app"
  from True assms(2) obtain dd ks where
    dd: "dict (nfc_dict_context ?a) = Some dd"
    and f1: "storage ?a NFC_APP_MF_CLASSIC_DICT_SYSTEM_PATH = Some ks"
    by auto
  have u1: "scene_state ?a = DictAttackStateUserDictInProgress" using True by simp
  have p1: "poller ?a = Some p" using assms(1) by simp
  have eq: "nfc_scene_mf_classic_dict_attack_on_event lib app
        (SceneManagerEventTypeCustom NfcCustomEventDictAttackSkip) =
      nfc_scene_mf_classic_dict_attack_on_event lib ?a
        (SceneManagerEventTypeCustom NfcCustomEventDictAttackComplete)"
    using on_event_skip_as_complete[OF _ _ assms(1)] True by blast
  from on_event_complete_user[OF u1 p1 dd f1, of lib] show ?thesis
    unfolding eq by (auto simp add: new_calls_def)
next
  case False
  then have c: "scene_state app = DictAttackStateSystemDictInProgress \<or>
                \<not> is_card_present (nfc_dict_context app)"
    by (cases "scene_state app") auto
  from on_event_skip_conclude[OF c assms(1), of lib] show ?thesis
    by (simp add: new_calls_def)
qed

theorem skip_persists_card_data_first_witness:
  "poller app_user = Some \<lparr>poller_data = (3, 5), poller_started = True\<rparr> \<and>
   dict (nfc_dict_context app_user) \<noteq> None \<and>
   storage app_user NFC_APP_MF_CLASSIC_DICT_SYSTEM_PATH \<noteq> None \<and>
   (\<exists>app' rest.
      nfc_scene_mf_classic_dict_attack_on_event lib0 app_user
        (SceneManagerEventTypeCustom NfcCustomEventDictAttackSkip) = Some (True, app') \<and>
      nfc_device app' = (3, 5) \<and>
      new_calls app_user app' = NfcDeviceSetData (3, 5) # rest) \<and>
   poller app_system = Some \<lparr>poller_data = (3, 5), poller_started = True\<rparr> \<and>
   scene_state app_system = DictAttackStateSystemDictInProgress \<and>
   (\<exists>app' rest.
      nfc_scene_mf_classic_dict_attack_on_event lib0 app_system
        (SceneManagerEventTypeCustom NfcCustomEventDictAttackSkip) = Some (True, app') \<and>
      nfc_device app' = (3, 5) \<and>
      new_calls app_system app' = NfcDeviceSetData (3, 5) # rest)"
proof -
  have u: "poller app_user = Some \<lparr>poller_data = (3, 5), poller_started = True\<rparr>"
    "dict (nfc_dict_context app_user) \<noteq> None"
    "storage app_user NFC_APP_MF_CLASSIC_DICT_SYSTEM_PATH \<noteq> None"
    by (simp_all add: app_user_def app0_def ctx0_def)
  have s: "poller app_system = Some \<lparr>poller_data = (3, 5), poller_started = True\<rparr>"
    "scene_state app_system = DictAttackStateSystemDictInProgress"
    by (simp_all add: app_system_def app0_def ctx0_def)
  have hu: "scene_state app_user = DictAttackStateUserDictInProgress \<and>
         is_card_present (nfc_dict_context app_user) \<longrightarrow>
           dict (nfc_dict_context app_user) \<noteq> None \<and>
           storage app_user NFC_APP_MF_CLASSIC_DICT_SYSTEM_PATH \<noteq> None"
    using u by simp
  have hs: "scene_state app_system = DictAttackStateUserDictInProgress \<and>
         is_card_present (nfc_dict_context app_system) \<longrightarrow>
           dict (nfc_dict_context app_system) \<noteq> None \<and>
           storage app_system NFC_APP_MF_CLASSIC_DICT_SYSTEM_PATH \<noteq> None"
    using s by simp
  show ?thesis
    using u s
      skip_persists_card_data_first[OF u(1) hu, of lib0]
      skip_persists_card_data_first[OF s(1) hs, of lib0]
    by auto
qed

subsection \<open>Invariants of a run\<close>

lemma files_bounded_lookup:
  "storage app q = Some ks \<Longrightarrow> files_bounded (storage app) \<Longrightarrow> length ks < 2 ^ 32"
  by (cases q) (auto simp: files_bounded_def file_bounded_def)

lemma files_bounded_remove:
  "files_bounded st \<Longrightarrow> files_bounded (st(p := None))"
  by (cases p) (auto simp: files_bounded_def file_bounded_def)

lemma files_bounded_write:
  "files_bounded st \<Longrightarrow> length ks < 2 ^ 32 \<Longrightarrow> files_bounded (st(p \<mapsto> ks))"
  by (cases p) (auto simp: files_bounded_def file_bounded_def)

lemma dict_in_sync_open:
  assumes "length ks < 2 ^ 32"
  shows "dict_in_sync (c\<lparr>dict := Some (keys_dict_open ks),
            dict_keys_total := of_nat (length ks), dict_keys_current := 0\<rparr>)"
  using assms by (simp add: dict_in_sync_def keys_dict_open_def)

lemma prepare_view_general:
  assumes "nfc_scene_mf_classic_dict_attack_prepare_view app = Some app'"
  shows "poller app' = poller app \<and> nfc_device app' = nfc_device app \<and>
     dict_keys_current (nfc_dict_context app') = 0 \<and>
     (\<exists>d. dict (nfc_dict_context app') = Some d \<and> cursor d = 0) \<and>
     filter is_set_data (calls app') = filter is_set_data (calls app) \<and>
     (files_bounded (storage app) \<longrightarrow>
        files_bounded (storage app') \<and> dict_in_sync (nfc_dict_context app'))"
proof (cases "scene_state app")
  case DictAttackStateSystemDictInProgress
  show ?thesis
  proof (cases "storage app NFC_APP_MF_CLASSIC_DICT_SYSTEM_PATH")
    case None
    from prepare_view_system_missing[OF DictAttackStateSystemDictInProgress None] assms
    show ?thesis by simp
  next
    case (Some ks)
    from prepare_view_system[OF DictAttackStateSystemDictInProgress Some] assms
    show ?thesis
      using files_bounded_lookup[OF Some]
      by (auto simp add: keys_dict_open_def files_bounded_write dict_in_sync_open[unfolded keys_dict_open_def])
  qed
next
  case DictAttackStateUserDictInProgress
  note u = this
  show ?thesis
  proof (cases "user_dict_absent_or_empty (storage app)")
    case True
    show ?thesis
    proof (cases "storage app NFC_APP_MF_CLASSIC_DICT_SYSTEM_PATH")
      case None
      from prepare_view_user_missing_system[OF u True None] assms show ?thesis by simp
    next
      case (Some ks)
      show ?thesis
      proof (cases "storage app NFC_APP_MF_CLASSIC_DICT_USER_PATH")
        case None
        from prepare_view_user_absent[OF u None Some] assms
        show ?thesis
          using files_bounded_lookup[OF Some]
          by (auto simp add: keys_dict_open_def files_bounded_write dict_in_sync_open[unfolded keys_dict_open_def])
      next
        case (Some uks)
        have z: "(of_nat (length uks) :: 32 word) = 0"
          using True Some
          by (simp add: user_dict_absent_or_empty_def keys_dict_get_total_keys_def keys_dict_open_def)
        from prepare_view_user_empty[OF u Some z \<open>storage app NFC_APP_MF_CLASSIC_DICT_SYSTEM_PATH = Some ks\<close>] assms
        show ?thesis
          using files_bounded_lookup[OF \<open>storage app NFC_APP_MF_CLASSIC_DICT_SYSTEM_PATH = Some ks\<close>]
            files_bounded_lookup[OF Some]
          by (auto simp add: keys_dict_open_def files_bounded_write dict_in_sync_open[unfolded keys_dict_open_def])
      qed
    qed
  next
    case False
    then obtain uks where uks: "storage app NFC_APP_MF_CLASSIC_DICT_USER_PATH = Some uks"
      and nz: "(of_nat (length uks) :: 32 word) \<noteq> 0"
      by (auto simp add: user_dict_absent_or_empty_def keys_dict_get_total_keys_def keys_dict_open_def
            split: option.splits)
    show ?thesis
    proof (cases "storage app NFC_APP_MF_CLASSIC_DICT_SYSTEM_PATH")
      case None
      from prepare_view_user[OF u uks nz] assms
      show ?thesis
        using files_bounded_lookup[OF uks] None
        by (auto simp add: keys_dict_open_def files_bounded_write files_bounded_remove
              dict_in_sync_open[unfolded keys_dict_open_def])
    next
      case (Some ks)
      from prepare_view_user[OF u uks nz] assms
      show ?thesis
        using files_bounded_lookup[OF uks] files_bounded_lookup[OF Some] Some
        by (auto simp add: keys_dict_open_def files_bounded_write
              dict_in_sync_open[unfolded keys_dict_open_def])
    qed
  qed
qed


lemma on_enter_general:
  assumes "nfc_scene_mf_classic_dict_attack_on_enter lib app = Some app'"
  shows "dict_keys_current (nfc_dict_context app') = 0 \<and>
     (\<exists>d. dict (nfc_dict_context app') = Some d \<and> cursor d = 0) \<and>
     filter is_set_data (calls app') = filter is_set_data (calls app) \<and>
     (files_bounded (storage app) \<longrightarrow>
        files_bounded (storage app') \<and> dict_in_sync (nfc_dict_context app'))"
proof (cases "nfc_scene_mf_classic_dict_attack_prepare_view
                (scene_manager_set_scene_state DictAttackStateUserDictInProgress app)")
  case None
  from on_enter_failed_prepare[OF None, of lib] assms show ?thesis by simp
next
  case (Some a2)
  from on_enter_after_prepare[OF Some, of lib] assms prepare_view_general[OF Some]
  show ?thesis by auto
qed

lemma on_event_complete_user_general:
  assumes "scene_state app = DictAttackStateUserDictInProgress"
    and "nfc_scene_mf_classic_dict_attack_on_event lib app
           (SceneManagerEventTypeCustom NfcCustomEventDictAttackComplete) = Some (c, app')"
  shows "dict_keys_current (nfc_dict_context app') = 0 \<and>
     (\<exists>d. dict (nfc_dict_context app') = Some d \<and> cursor d = 0) \<and>
     filter is_set_data (calls app') = filter is_set_data (calls app) \<and>
     (files_bounded (storage app) \<longrightarrow>
        files_bounded (storage app') \<and> dict_in_sync (nfc_dict_context app'))"
  using assms
  by (auto simp add: nfc_scene_mf_classic_dict_attack_on_event_def scene_manager_get_scene_state_def
        nfc_poller_stop_def nfc_poller_free_def keys_dict_free_def nfc_poller_alloc_def
        nfc_poller_start_def scene_manager_set_scene_state_def emit_def
      split: option.splits Option.bind_splits dest!: prepare_view_general)


lemma of_nat_le_32:
  assumes "m \<le> n" and "n < 2 ^ 32"
  shows "(of_nat m :: 32 word) \<le> of_nat n"
  using assms by (simp add: word_of_nat_less_eq_iff take_bit_nat_eq_self)

lemma of_nat_Suc_neq_0_32:
  assumes "n < m" and "m < 4294967296"
  shows "(of_nat n + 1 :: 32 word) \<noteq> 0"
proof -
  have "Suc n < 2 ^ LENGTH(32)" using assms by simp
  from of_nat_neq_0[OF _ this] show ?thesis by (simp add: add.commute)
qed

lemma dict_in_sync_le:
  assumes "dict_in_sync c"
  shows "dict_keys_current c \<le> dict_keys_total c"
  using assms by (auto simp add: dict_in_sync_def of_nat_le_32 split: option.splits)

lemma worker_preserves_sync:
  assumes "nfc_dict_attack_worker_callback lib ev app = Some (command, data, app')"
    and "dict_in_sync (nfc_dict_context app)"
  shows "dict_in_sync (nfc_dict_context app') \<and> storage app' = storage app"
  using assms
  by (cases ev)
     (auto simp add: prim_defs dict_in_sync_def Let_def
           split: option.splits if_splits prod.splits Option.bind_splits)

lemma worker_set_data_count:
  assumes "nfc_dict_attack_worker_callback lib ev app = Some (command, data, app')"
  shows "set_data_count (calls app') =
           set_data_count (calls app) + (if ev = MfClassicPollerEventTypeSuccess then 1 else 0)"
  using assms
  by (cases ev)
     (auto simp add: prim_defs set_data_count_def Let_def
           split: option.splits if_splits prod.splits Option.bind_splits)

lemma worker_counter:
  assumes "nfc_dict_attack_worker_callback lib ev app = Some (command, data, app')"
    and "dict_in_sync (nfc_dict_context app)"
  shows "if rewinds (Session ev)
         then dict_keys_current (nfc_dict_context app') = 0 \<and>
              (\<exists>d. dict (nfc_dict_context app') = Some d \<and> cursor d = 0)
         else dict_keys_current (nfc_dict_context app') = dict_keys_current (nfc_dict_context app) \<or>
              ev = MfClassicPollerEventTypeRequestKey \<and>
              dict_keys_current (nfc_dict_context app') = dict_keys_current (nfc_dict_context app) + 1 \<and>
              dict_keys_current (nfc_dict_context app') \<noteq> 0"
  using assms
  by (cases ev)
     (auto simp add: prim_defs dict_in_sync_def of_nat_Suc_neq_0_32 Let_def
           split: option.splits if_splits prod.splits Option.bind_splits)


lemma on_event_general:
  assumes "nfc_scene_mf_classic_dict_attack_on_event lib app ev = Some (c, app')"
  shows "set_data_count (calls app') =
           set_data_count (calls app) + (if persists (Scene ev) then 1 else 0) \<and>
     (if enters_phase (Scene ev) app
      then dict_keys_current (nfc_dict_context app') = 0 \<and>
           (\<exists>d. dict (nfc_dict_context app') = Some d \<and> cursor d = 0) \<and>
           (files_bounded (storage app) \<longrightarrow>
              files_bounded (storage app') \<and> dict_in_sync (nfc_dict_context app'))
      else nfc_dict_context app' = nfc_dict_context app \<and> storage app' = storage app)"
proof (cases ev)
  case (SceneManagerEventTypeCustom e)
  show ?thesis
  proof (cases e)
    case NfcCustomEventDictAttackComplete
    show ?thesis
    proof (cases "scene_state app")
      case DictAttackStateUserDictInProgress
      from on_event_complete_user_general[OF this] assms show ?thesis
        using DictAttackStateUserDictInProgress
        by (simp add: SceneManagerEventTypeCustom NfcCustomEventDictAttackComplete set_data_count_def)
    next
      case DictAttackStateSystemDictInProgress
      show ?thesis
      proof (cases "poller app")
        case None
        then show ?thesis
          using assms DictAttackStateSystemDictInProgress
          by (simp add: SceneManagerEventTypeCustom NfcCustomEventDictAttackComplete on_event_defs)
      next
        case (Some p)
        from on_event_complete_system[OF DictAttackStateSystemDictInProgress Some, of lib] assms
        show ?thesis
          using DictAttackStateSystemDictInProgress
          by (auto simp add: SceneManagerEventTypeCustom NfcCustomEventDictAttackComplete
                set_data_count_def)
      qed
    qed
  next
    case NfcCustomEventDictAttackSkip
    show ?thesis
    proof (cases "poller app")
      case None
      then show ?thesis
        using assms
        by (simp add: SceneManagerEventTypeCustom NfcCustomEventDictAttackSkip on_event_defs)
    next
      case (Some p)
      show ?thesis
      proof (cases "scene_state app = DictAttackStateUserDictInProgress \<and>
                    is_card_present (nfc_dict_context app)")
        case True
        let ?a = "nfc_device_set_data (poller_data p) app"
        have eq: "nfc_scene_mf_classic_dict_attack_on_event lib ?a
            (SceneManagerEventTypeCustom NfcCustomEventDictAttackComplete) = Some (c, app')"
          using on_event_skip_as_complete[OF _ _ Some, of lib] True assms
          by (simp add: SceneManagerEventTypeCustom NfcCustomEventDictAttackSkip)
        have u: "scene_state ?a = DictAttackStateUserDictInProgress" using True by simp
        from on_event_complete_user_general[OF u eq] show ?thesis
          using True
          by (simp add: SceneManagerEventTypeCustom NfcCustomEventDictAttackSkip set_data_count_def)
      next
        case False
        then have cc: "scene_state app = DictAttackStateSystemDictInProgress \<or>
                      \<not> is_card_present (nfc_dict_context app)"
          by (cases "scene_state app") auto
        from on_event_skip_conclude[OF cc Some, of lib] assms show ?thesis
          using False
          by (auto simp add: SceneManagerEventTypeCustom NfcCustomEventDictAttackSkip
                set_data_count_def)
      qed
    qed
  qed (use assms in \<open>auto simp add: SceneManagerEventTypeCustom set_data_count_def
         nfc_scene_mf_classic_dict_attack_on_event_def update_view_eq emit_def\<close>)
qed (use assms in \<open>auto simp add: set_data_count_def
       nfc_scene_mf_classic_dict_attack_on_event_def emit_def\<close>)

lemma on_exit_eq:
  assumes "nfc_scene_mf_classic_dict_attack_on_exit app = Some app'"
  shows "nfc_dict_context app' =
           (nfc_dict_context app)\<lparr>dict := None, current_sector := 0, sectors_total := 0,
              sectors_read := 0, keys_found := 0, dict_keys_total := 0, dict_keys_current := 0,
              is_key_attack := False, key_attack_current_sector := 0, is_card_present := False,
              nested_phase := MfClassicNestedPhaseNone, prng_type := MfClassicPrngTypeUnknown,
              backdoor := MfClassicBackdoorUnknown\<rparr> \<and>
         scene_state app' = DictAttackStateUserDictInProgress \<and> poller app' = None \<and>
         storage app' = storage app \<and> nfc_device app' = nfc_device app \<and>
         calls app' = calls app @ [NfcPollerStop, NfcPollerFree, DictAttackReset,
           SceneManagerSetSceneState DictAttackStateUserDictInProgress, KeysDictFree, NfcBlinkStop]"
  using assms
  by (auto simp add: nfc_scene_mf_classic_dict_attack_on_exit_def nfc_poller_stop_def
        nfc_poller_free_def keys_dict_free_def scene_manager_set_scene_state_def emit_def
      split: option.splits Option.bind_splits)


lemma step_preserves_sync:
  assumes "step lib i app = Some app'"
    and "files_bounded (storage app)" and "dict_in_sync (nfc_dict_context app)"
  shows "files_bounded (storage app') \<and> dict_in_sync (nfc_dict_context app')"
proof (cases i)
  case Enter
  with assms on_enter_general[of lib app app'] show ?thesis by simp
next
  case (Session ev)
  with assms worker_preserves_sync[of lib ev app _ _ app'] show ?thesis by auto
next
  case (PollerRead d)
  with assms show ?thesis by (auto split: option.splits)
next
  case (View ev)
  with assms show ?thesis
    by (cases ev) (auto simp add: view_dispatcher_send_custom_event_def emit_def)
next
  case (Scene ev)
  with assms obtain c where
    "nfc_scene_mf_classic_dict_attack_on_event lib app ev = Some (c, app')" by auto
  from on_event_general[OF this] assms(2,3) show ?thesis
    by (auto split: if_splits)
next
  case Exit
  with assms on_exit_eq[of app app'] show ?thesis
    by (simp add: dict_in_sync_def)
qed

lemma run_preserves_sync:
  assumes "run lib ins app = Some app'"
    and "files_bounded (storage app)" and "dict_in_sync (nfc_dict_context app)"
  shows "files_bounded (storage app') \<and> dict_in_sync (nfc_dict_context app')"
  using assms
proof (induction ins arbitrary: app)
  case Nil
  then show ?case by simp
next
  case (Cons i ins)
  from Cons.prems(1) obtain a where
    s: "step lib i app = Some a" and r: "run lib ins a = Some app'"
    by (auto simp del: step.simps split: option.splits)
  from step_preserves_sync[OF s Cons.prems(2,3)] Cons.IH[OF r] show ?case by blast
qed

text \<open>
  C9. Start from any state of the application whose dictionary files hold fewer than
  \<open>2^32\<close> keys each, enter the scene, and let anything happen in any order: events of the
  session, changes of the poller's data, key presses, events of the scene manager
  (including the passage to the system phase), leaving the scene and entering it again.
  In every state so reached \<open>dict_keys_current\<close> is at most \<open>dict_keys_total\<close>.
\<close>

theorem dict_keys_current_never_exceeds_total:
  assumes "files_bounded (storage init)" and "run lib (Enter # ins) init = Some app"
  shows "dict_keys_current (nfc_dict_context app) \<le> dict_keys_total (nfc_dict_context app)"
proof -
  from assms(2) obtain a where
    e: "nfc_scene_mf_classic_dict_attack_on_enter lib init = Some a"
    and r: "run lib ins a = Some app"
    by (auto split: option.splits)
  from on_enter_general[OF e] assms(1) have
    "files_bounded (storage a)" "dict_in_sync (nfc_dict_context a)" by simp_all
  from run_preserves_sync[OF r this] show ?thesis
    by (simp add: dict_in_sync_le)
qed

theorem dict_keys_current_never_exceeds_total_witness:
  "files_bounded (storage app0) \<and>
   (\<exists>app. run lib0 [Enter, Session MfClassicPollerEventTypeRequestKey,
                     Session MfClassicPollerEventTypeRequestKey,
                     Session MfClassicPollerEventTypeSuccess,
                     Scene (SceneManagerEventTypeCustom NfcCustomEventDictAttackComplete),
                     Session MfClassicPollerEventTypeRequestKey] app0 = Some app \<and>
      dict_keys_total (nfc_dict_context app) = 3 \<and>
      dict_keys_current (nfc_dict_context app) \<le> dict_keys_total (nfc_dict_context app))"
proof -
  have b: "files_bounded (storage app0)"
    by (simp add: files_bounded_def file_bounded_def example_defs)
  have "map_option (dict_keys_total \<circ> nfc_dict_context)
          (run lib0 [Enter, Session MfClassicPollerEventTypeRequestKey,
                     Session MfClassicPollerEventTypeRequestKey,
                     Session MfClassicPollerEventTypeSuccess,
                     Scene (SceneManagerEventTypeCustom NfcCustomEventDictAttackComplete),
                     Session MfClassicPollerEventTypeRequestKey] app0) = Some 3"
    by (simp add: scene_defs prim_defs example_defs)
  then obtain app where
    r: "run lib0 [Enter, Session MfClassicPollerEventTypeRequestKey,
                     Session MfClassicPollerEventTypeRequestKey,
                     Session MfClassicPollerEventTypeSuccess,
                     Scene (SceneManagerEventTypeCustom NfcCustomEventDictAttackComplete),
                     Session MfClassicPollerEventTypeRequestKey] app0 = Some app"
    and t: "dict_keys_total (nfc_dict_context app) = 3"
    by (auto simp del: run.simps)
  from dict_keys_current_never_exceeds_total[OF b r] b r t show ?thesis
    by (simp del: run.simps)
qed

lemma step_set_data_count:
  assumes "step lib i app = Some app'"
  shows "set_data_count (calls app') = set_data_count (calls app) + (if persists i then 1 else 0)"
proof (cases i)
  case Enter
  with assms on_enter_general[of lib app app'] show ?thesis
    by (simp add: set_data_count_def)
next
  case (Session ev)
  with assms worker_set_data_count[of lib ev app _ _ app'] show ?thesis
    by (cases ev) auto
next
  case (PollerRead d)
  with assms show ?thesis by (auto split: option.splits)
next
  case (View ev)
  with assms show ?thesis
    by (cases ev) (auto simp add: view_dispatcher_send_custom_event_def emit_def set_data_count_def)
next
  case (Scene ev)
  with assms obtain c where
    "nfc_scene_mf_classic_dict_attack_on_event lib app ev = Some (c, app')" by auto
  from conjunct1[OF on_event_general[OF this]] show ?thesis
    by (simp add: Scene)
next
  case Exit
  with assms on_exit_eq[of app app'] show ?thesis
    by (simp add: set_data_count_def)
qed

text \<open>
  C8, as the claim states it, fails. With a user dictionary of one key, the session ends
  its pass over it with \<^verbatim>\<open>Success\<close> while the scene is still in the user phase, and the
  callback persists the card data there; the pass over the system dictionary persists it
  again: two calls in one run. And a run that is skipped in the system phase persists the
  card data on the skip, with no \<^verbatim>\<open>Success\<close> at all.
\<close>

theorem set_data_called_in_user_pass_and_on_skip:
  "map_option scene_state (run lib0 [Enter] app0) = Some DictAttackStateUserDictInProgress \<and>
   map_option (set_data_count \<circ> calls)
     (run lib0 [Enter, Session MfClassicPollerEventTypeSuccess] app0) = Some 1 \<and>
   map_option (set_data_count \<circ> calls)
     (run lib0 [Enter, Session MfClassicPollerEventTypeSuccess,
                Scene (SceneManagerEventTypeCustom NfcCustomEventDictAttackComplete),
                Session MfClassicPollerEventTypeSuccess,
                Scene (SceneManagerEventTypeCustom NfcCustomEventDictAttackComplete)] app0) = Some 2 \<and>
   map_option (set_data_count \<circ> calls)
     (run lib0 [Enter, View DictAttackEventSkipPressed,
                Scene (SceneManagerEventTypeCustom NfcCustomEventDictAttackSkip)] app_no_user) = Some 1"
  by (simp add: scene_defs prim_defs example_defs set_data_count_def)

text \<open>
  C8, as amended. Over any run, \<^verbatim>\<open>nfc_device_set_data\<close> is called once for every
  \<^verbatim>\<open>Success\<close> event of the session, in the user phase as in the system phase, and once for
  every \<^verbatim>\<open>NfcCustomEventDictAttackSkip\<close>; nothing else calls it.
\<close>

theorem set_data_once_per_success_and_per_skip:
  assumes "run lib ins app = Some app'"
  shows "set_data_count (calls app') = set_data_count (calls app) + length (filter persists ins)"
  using assms
proof (induction ins arbitrary: app)
  case Nil
  then show ?case by simp
next
  case (Cons i ins)
  from Cons.prems obtain a where
    s: "step lib i app = Some a" and r: "run lib ins a = Some app'"
    by (auto simp del: step.simps split: option.splits)
  from step_set_data_count[OF s] Cons.IH[OF r] show ?case by simp
qed

theorem set_data_once_per_success_and_per_skip_witness:
  "\<exists>app'. run lib0 [Enter, Session MfClassicPollerEventTypeSuccess,
                     Scene (SceneManagerEventTypeCustom NfcCustomEventDictAttackComplete),
                     Session MfClassicPollerEventTypeSuccess,
                     Scene (SceneManagerEventTypeCustom NfcCustomEventDictAttackComplete)] app0
             = Some app' \<and>
           set_data_count (calls app') = 2"
proof -
  have "map_option scene_state
          (run lib0 [Enter, Session MfClassicPollerEventTypeSuccess,
                     Scene (SceneManagerEventTypeCustom NfcCustomEventDictAttackComplete),
                     Session MfClassicPollerEventTypeSuccess,
                     Scene (SceneManagerEventTypeCustom NfcCustomEventDictAttackComplete)] app0)
          = Some DictAttackStateSystemDictInProgress"
    by (simp add: scene_defs prim_defs example_defs)
  then obtain app' where
    r: "run lib0 [Enter, Session MfClassicPollerEventTypeSuccess,
                     Scene (SceneManagerEventTypeCustom NfcCustomEventDictAttackComplete),
                     Session MfClassicPollerEventTypeSuccess,
                     Scene (SceneManagerEventTypeCustom NfcCustomEventDictAttackComplete)] app0
             = Some app'"
    by (auto simp del: run.simps)
  have c0: "set_data_count (calls app0) = 0"
    by (simp add: set_data_count_def example_defs)
  from set_data_once_per_success_and_per_skip[OF r] r show ?thesis
    by (simp add: c0 del: run.simps)
qed

text \<open>
  C6, as the claim states it, fails. After one key was supplied \<open>dict_keys_current\<close> is 1;
  leaving the scene sets it to 0, and that step is neither a rewind nor a phase entry: the
  dictionary is released.
\<close>

theorem teardown_resets_dict_keys_current_without_rewind:
  "map_option (dict_keys_current \<circ> nfc_dict_context)
     (run lib0 [Enter, Session MfClassicPollerEventTypeRequestKey] app0) = Some 1 \<and>
   map_option (dict_keys_current \<circ> nfc_dict_context)
     (run lib0 [Enter, Session MfClassicPollerEventTypeRequestKey, Exit] app0) = Some 0 \<and>
   map_option (dict \<circ> nfc_dict_context)
     (run lib0 [Enter, Session MfClassicPollerEventTypeRequestKey, Exit] app0) = Some None \<and>
   \<not> rewinds (Exit :: (8 word \<times> 8 word) input) \<and> \<not> enters_phase Exit app0"
  by (simp add: scene_defs prim_defs example_defs)

text \<open>
  C6, as amended. Take any step from a state whose counters agree with the open
  dictionary. If the step rewinds the dictionary (\<^verbatim>\<open>NextSector\<close>, \<^verbatim>\<open>KeyAttackStop\<close>) or
  enters a phase (scene entry, \<^verbatim>\<open>DictAttackComplete\<close> in the user phase, skip in the user phase
  with a card present), \<open>dict_keys_current\<close> is 0 afterwards and the cursor of the open
  dictionary is at the start. Teardown also sets it to 0, with the dictionary released and
  not rewound. Every other step leaves \<open>dict_keys_current\<close> as it is, or (a
  \<^verbatim>\<open>RequestKey\<close> that supplies a key) adds one to it, which never gives 0.
\<close>

theorem dict_keys_current_reset_on_rewind_entry_and_teardown_only:
  assumes "step lib i app = Some app'" and "dict_in_sync (nfc_dict_context app)"
  shows "if rewinds i \<or> enters_phase i app
         then dict_keys_current (nfc_dict_context app') = 0 \<and>
              (\<exists>d. dict (nfc_dict_context app') = Some d \<and> cursor d = 0)
         else if i = Exit
         then dict_keys_current (nfc_dict_context app') = 0 \<and>
              dict (nfc_dict_context app') = None
         else dict_keys_current (nfc_dict_context app') = dict_keys_current (nfc_dict_context app) \<or>
              i = Session MfClassicPollerEventTypeRequestKey \<and>
              dict_keys_current (nfc_dict_context app') = dict_keys_current (nfc_dict_context app) + 1 \<and>
              dict_keys_current (nfc_dict_context app') \<noteq> 0"
proof (cases i)
  case Enter
  with assms on_enter_general[of lib app app'] show ?thesis by simp
next
  case (Session ev)
  with assms obtain command data where
    "nfc_dict_attack_worker_callback lib ev app = Some (command, data, app')" by auto
  from worker_counter[OF this assms(2)] show ?thesis
    by (cases ev) (simp_all add: Session)
next
  case (PollerRead d)
  with assms show ?thesis by (auto split: option.splits)
next
  case (View ev)
  with assms show ?thesis
    by (cases ev) (auto simp add: view_dispatcher_send_custom_event_def emit_def)
next
  case (Scene ev)
  with assms obtain c where
    "nfc_scene_mf_classic_dict_attack_on_event lib app ev = Some (c, app')" by auto
  from on_event_general[OF this] show ?thesis
    by (auto simp add: Scene split: if_splits)
next
  case Exit
  with assms on_exit_eq[of app app'] show ?thesis by simp
qed

theorem dict_keys_current_reset_on_rewind_entry_and_teardown_only_witness:
  "dict_in_sync (nfc_dict_context app_system) \<and>
   (\<exists>app'. step lib0 (Session (MfClassicPollerEventTypeNextSector 1)) app_system = Some app' \<and>
      dict_keys_current (nfc_dict_context app_system) = 3 \<and>
      dict_keys_current (nfc_dict_context app') = 0) \<and>
   (\<exists>app'. step lib0 Exit app_system = Some app' \<and>
      dict_keys_current (nfc_dict_context app') = 0 \<and> dict (nfc_dict_context app') = None) \<and>
   (\<exists>app'. step lib0 (Session MfClassicPollerEventTypeCardLost) app_system = Some app' \<and>
      dict_keys_current (nfc_dict_context app') = 3)"
proof -
  have i: "dict_in_sync (nfc_dict_context app_system)"
    by (simp add: dict_in_sync_def example_defs)
  have k: "dict_keys_current (nfc_dict_context app_system) = 3"
    by (simp add: example_defs)
  have s1: "\<exists>app'. step lib0 (Session (MfClassicPollerEventTypeNextSector 1)) app_system = Some app'"
    by (simp add: prim_defs example_defs)
  have s2: "\<exists>app'. step lib0 Exit app_system = Some app'"
    by (simp add: scene_defs prim_defs example_defs)
  have s3: "\<exists>app'. step lib0 (Session MfClassicPollerEventTypeCardLost) app_system = Some app'"
    by (simp add: prim_defs example_defs)
  from s1 obtain a1 where a1: "step lib0 (Session (MfClassicPollerEventTypeNextSector 1)) app_system = Some a1"
    by blast
  from s2 obtain a2 where a2: "step lib0 Exit app_system = Some a2" by blast
  from s3 obtain a3 where a3: "step lib0 (Session MfClassicPollerEventTypeCardLost) app_system = Some a3"
    by blast
  from dict_keys_current_reset_on_rewind_entry_and_teardown_only[OF a1 i]
    dict_keys_current_reset_on_rewind_entry_and_teardown_only[OF a2 i]
    dict_keys_current_reset_on_rewind_entry_and_teardown_only[OF a3 i]
  show ?thesis
    using i k a1 a2 a3 by (simp del: step.simps)
qed

subsection \<open>Found keys\<close>

text \<open>
  C7, as the claim states it, fails. The session has reported 5 keys found
  (\<^verbatim>\<open>DataUpdate\<close>) and has since read a sixth; the device record still holds the data of
  before the attack, with 2. After \<^verbatim>\<open>FoundKeyA\<close> the counter \<open>keys_found\<close> is still 5: it
  was recomputed neither from the session's data nor from the device record.
\<close>

theorem found_key_does_not_recompute_counters:
  "map_option (keys_found \<circ> nfc_dict_context)
     (run lib0 [Enter, Session MfClassicPollerEventTypeRequestMode,
                Session (MfClassicPollerEventTypeDataUpdate upd0), PollerRead (3, 6),
                Session MfClassicPollerEventTypeFoundKeyA] app0) = Some 5 \<and>
   map_option (snd \<circ> mf_classic_get_read_sectors_and_keys lib0 \<circ> nfc_device)
     (run lib0 [Enter, Session MfClassicPollerEventTypeRequestMode,
                Session (MfClassicPollerEventTypeDataUpdate upd0), PollerRead (3, 6),
                Session MfClassicPollerEventTypeFoundKeyA] app0) = Some 2 \<and>
   map_option (map_option (snd \<circ> mf_classic_get_read_sectors_and_keys lib0 \<circ> poller_data) \<circ> poller)
     (run lib0 [Enter, Session MfClassicPollerEventTypeRequestMode,
                Session (MfClassicPollerEventTypeDataUpdate upd0), PollerRead (3, 6),
                Session MfClassicPollerEventTypeFoundKeyA] app0) = Some (Some 6)"
  by (simp add: scene_defs prim_defs example_defs Let_def)

text \<open>
  C7, as amended. On \<^verbatim>\<open>FoundKeyA\<close> and on \<^verbatim>\<open>FoundKeyB\<close> the callback only notifies the
  observer: it returns \<^verbatim>\<open>NfcCommandContinue\<close>, writes nothing into the event, sends the one
  custom event \<^verbatim>\<open>NfcCustomEventDictAttackDataUpdate\<close> and leaves the context (with
  \<open>sectors_read\<close> and \<open>keys_found\<close>), the phase, the device record, the poller and the
  storage as they are.
\<close>

theorem found_key_only_notifies:
  assumes "ev = MfClassicPollerEventTypeFoundKeyA \<or> ev = MfClassicPollerEventTypeFoundKeyB"
  shows "\<exists>app'. nfc_dict_attack_worker_callback lib ev app =
                  Some (NfcCommandContinue, NoEventData, app') \<and>
     new_calls app app' = [ViewDispatcherSendCustomEvent NfcCustomEventDictAttackDataUpdate] \<and>
     nfc_dict_context app' = nfc_dict_context app \<and> scene_state app' = scene_state app \<and>
     nfc_device app' = nfc_device app \<and> poller app' = poller app \<and> storage app' = storage app"
  using assms by (auto simp add: view_dispatcher_send_custom_event_def emit_def new_calls_def)

theorem found_key_only_notifies_witness:
  "\<exists>app'. nfc_dict_attack_worker_callback lib0 MfClassicPollerEventTypeFoundKeyA app_system =
             Some (NfcCommandContinue, NoEventData, app') \<and>
     new_calls app_system app' = [ViewDispatcherSendCustomEvent NfcCustomEventDictAttackDataUpdate] \<and>
     keys_found (nfc_dict_context app') = 0 \<and> sectors_read (nfc_dict_context app') = 0 \<and>
     mf_classic_get_read_sectors_and_keys lib0 (nfc_device app') = (1, 2)"
proof -
  have c: "keys_found (nfc_dict_context app_system) = 0"
    "sectors_read (nfc_dict_context app_system) = 0"
    "mf_classic_get_read_sectors_and_keys lib0 (nfc_device app_system) = (1, 2)"
    by (simp_all add: example_defs)
  from found_key_only_notifies[of MfClassicPollerEventTypeFoundKeyA lib0 app_system]
  show ?thesis
    by (auto simp add: c simp del: nfc_dict_attack_worker_callback.simps)
qed

subsection \<open>Teardown\<close>

text \<open>
  C4. Here the code departs from the claim. The session reports \<open>nested_target_key = 9\<close>
  and \<open>msb_count = 7\<close> in a \<^verbatim>\<open>DataUpdate\<close>; the scene is then left. Teardown resets the
  phase and every field of the context to its default but these two, which
  \<^verbatim>\<open>on_exit\<close> does not assign: they keep the reported values.
\<close>

theorem teardown_keeps_nested_target_key_and_msb_count:
  "map_option nfc_dict_context
     (run lib0 [Enter, Session (MfClassicPollerEventTypeDataUpdate upd0), Exit] app0) =
   Some (ctx0\<lparr>nested_target_key := 9, msb_count := 7\<rparr>) \<and>
   map_option scene_state
     (run lib0 [Enter, Session (MfClassicPollerEventTypeDataUpdate upd0), Exit] app0) =
   Some DictAttackStateUserDictInProgress"
  by (simp add: scene_defs prim_defs example_defs)

end
